theory Spec2Isabelle
  imports Main
begin

section \<open>Payment instruction parser and executor\<close>

text \<open>
  A shallow embedding of \<^verbatim>\<open>services/onboarding/payment-instructions.js\<close>.

  Conventions of the embedding.
  \<^item> A JavaScript string is a \<^typ>\<open>string\<close>; the modelled alphabet is ASCII, so
    \<^verbatim>\<open>toUpperCase\<close> maps \<^verbatim>\<open>a-z\<close> to \<^verbatim>\<open>A-Z\<close> and keeps every other
    code unit. White space (for \<^verbatim>\<open>trim\<close> and \<^verbatim>\<open>parseInt\<close>) is the six ASCII
    white space characters and the no-break space \<open>0xA0\<close>.
  \<^item> A position returned by \<^verbatim>\<open>indexOf\<close> is an \<^typ>\<open>int\<close>, \<open>-1\<close> when
    the search fails.
  \<^item> An \<^verbatim>\<open>Error\<close> thrown by a parsing function is the \<open>Inl\<close> branch of its
    result, carrying the message.
  \<^item> A JavaScript number is a \<open>jsnum\<close>: the integer-valued IEEE doubles, the two
    infinities and NaN. Arithmetic rounds to 53 significant bits (ties to even).
  \<^item> The engine's \<^verbatim>\<open>Date\<close> parser and the clock are inputs (record \<open>engine\<close>).
  \<^item> The in-place update of the account objects is explicit state passing: the service
    returns the response together with the account list after the call.
\<close>

subsection \<open>String primitives of the host language\<close>

definition isWhiteSpace :: "char \<Rightarrow> bool" where
  "isWhiteSpace c =
     (c = CHR 0x09 \<or> c = CHR 0x0A \<or> c = CHR 0x0B \<or> c = CHR 0x0C \<or> c = CHR 0x0D \<or> c = CHR '' '' \<or>
      c = CHR 0xA0)"

text \<open>\<^verbatim>\<open>s.trim()\<close>\<close>

definition trim :: "string \<Rightarrow> string" where
  "trim s = rev (dropWhile isWhiteSpace (rev (dropWhile isWhiteSpace s)))"

text \<open>\<^verbatim>\<open>s.split(sep)\<close> for a one-character separator; the empty string splits into one
  empty word.\<close>

fun split :: "char \<Rightarrow> string \<Rightarrow> string list" where
  "split sep [] = [[]]"
| "split sep (c # cs) =
     (if c = sep then [] # split sep cs
      else (case split sep cs of [] \<Rightarrow> [[c]] | w # ws \<Rightarrow> (c # w) # ws))"

text \<open>\<^verbatim>\<open>words.join(sep)\<close>\<close>

fun join :: "string \<Rightarrow> string list \<Rightarrow> string" where
  "join sep [] = []"
| "join sep [w] = w"
| "join sep (w # v # ws) = w @ sep @ join sep (v # ws)"

definition toUpperChar :: "char \<Rightarrow> char" where
  "toUpperChar c =
     (let n = (of_char c :: nat) in if 97 \<le> n \<and> n \<le> 122 then char_of (n - 32) else c)"

text \<open>\<^verbatim>\<open>s.toUpperCase()\<close>\<close>

definition toUpperCase :: "string \<Rightarrow> string" where
  "toUpperCase s = map toUpperChar s"

text \<open>The offset of the first occurrence of \<open>k\<close> in \<open>s\<close>, scanning from the left.\<close>

fun search :: "string \<Rightarrow> string \<Rightarrow> nat option" where
  "search k [] = (if k = [] then Some 0 else None)"
| "search k (c # cs) =
     (if take (length k) (c # cs) = k then Some 0 else map_option Suc (search k cs))"

text \<open>\<^verbatim>\<open>s.indexOf(k, pos)\<close>: the start offset is clamped to \<open>[0, length s]\<close>, so a
  negative \<open>pos\<close> (in particular the \<open>-1\<close> of a failed earlier search) searches from 0.
  \<^verbatim>\<open>s.indexOf(k)\<close> is \<open>indexOf s k 0\<close>.\<close>

definition indexOf :: "string \<Rightarrow> string \<Rightarrow> int \<Rightarrow> int" where
  "indexOf s k pos =
     (let start = min (nat pos) (length s) in
      case search k (drop start s) of None \<Rightarrow> - 1 | Some i \<Rightarrow> int (start + i))"

text \<open>\<^verbatim>\<open>s.substring(a, b)\<close>: both offsets are clamped to \<open>[0, length s]\<close> and swapped
  when \<open>a > b\<close>.\<close>

definition substring :: "string \<Rightarrow> int \<Rightarrow> int \<Rightarrow> string" where
  "substring s a b =
     (let a' = min (nat a) (length s); b' = min (nat b) (length s);
          lo = min a' b'; hi = max a' b'
      in take (hi - lo) (drop lo s))"

text \<open>\<^verbatim>\<open>s.substring(a)\<close>\<close>

definition substringFrom :: "string \<Rightarrow> int \<Rightarrow> string" where
  "substringFrom s a = drop (min (nat a) (length s)) s"

subsection \<open>Status codes\<close>

datatype status_code =
  AM01 | CU01 | CU02 | AC01 | AC02 | AC03 | AC04 | DT01 | SY01 | SY02 | SY03 | AP00 | AP02

fun STATUS_CODES :: "status_code \<Rightarrow> string" where
  "STATUS_CODES AM01 = ''Amount must be a positive integer''"
| "STATUS_CODES CU01 = ''Account currency mismatch''"
| "STATUS_CODES CU02 = ''Unsupported currency. Only NGN, USD, GBP, and GHS are supported''"
| "STATUS_CODES AC01 = ''Insufficient funds in debit account''"
| "STATUS_CODES AC02 = ''Debit and credit accounts cannot be the same''"
| "STATUS_CODES AC03 = ''Account not found''"
| "STATUS_CODES AC04 = ''Invalid account ID format''"
| "STATUS_CODES DT01 = ''Invalid date format''"
| "STATUS_CODES SY01 = ''Missing required keyword''"
| "STATUS_CODES SY02 = ''Invalid keyword order''"
| "STATUS_CODES SY03 = ''Malformed instruction: unable to parse keywords''"
| "STATUS_CODES AP00 = ''Transaction executed successfully''"
| "STATUS_CODES AP02 = ''Transaction scheduled for future execution''"

text \<open>The object \<^verbatim>\<open>{ error: true, statusCode, statusReason }\<close>.\<close>

record failure =
  statusCode :: status_code
  statusReason :: string

subsection \<open>The parser\<close>

datatype instr_type = DEBIT | CREDIT

record draft =
  ptype :: instr_type
  amount :: string
  currency :: string
  debitAccount :: string
  creditAccount :: string
  executeBy :: "string option"

text \<open>The eight keyword positions that both parsing functions compute first.\<close>

record positions =
  debitPos :: int
  fromPos :: int
  creditPos :: int
  toPos :: int
  accountPos1 :: int
  forPos :: int
  accountPos2 :: int
  onPos :: int

definition debitPositions :: "string \<Rightarrow> positions" where
  "debitPositions upper =
     (let debitPos = indexOf upper ''DEBIT'' 0;
          fromPos = indexOf upper ''FROM'' 0;
          accountPos1 = indexOf upper ''ACCOUNT'' fromPos;
          forPos = indexOf upper ''FOR'' 0;
          creditPos = indexOf upper ''CREDIT'' forPos;
          toPos = indexOf upper ''TO'' creditPos;
          accountPos2 = indexOf upper ''ACCOUNT'' toPos;
          onPos = indexOf upper ''ON'' accountPos2
      in \<lparr>debitPos = debitPos, fromPos = fromPos, creditPos = creditPos, toPos = toPos,
          accountPos1 = accountPos1, forPos = forPos, accountPos2 = accountPos2,
          onPos = onPos\<rparr>)"

definition creditPositions :: "string \<Rightarrow> positions" where
  "creditPositions upper =
     (let creditPos = indexOf upper ''CREDIT'' 0;
          toPos = indexOf upper ''TO'' 0;
          accountPos1 = indexOf upper ''ACCOUNT'' toPos;
          forPos = indexOf upper ''FOR'' 0;
          debitPos = indexOf upper ''DEBIT'' forPos;
          fromPos = indexOf upper ''FROM'' debitPos;
          accountPos2 = indexOf upper ''ACCOUNT'' fromPos;
          onPos = indexOf upper ''ON'' accountPos2
      in \<lparr>debitPos = debitPos, fromPos = fromPos, creditPos = creditPos, toPos = toPos,
          accountPos1 = accountPos1, forPos = forPos, accountPos2 = accountPos2,
          onPos = onPos\<rparr>)"

text \<open>The order test of \<^verbatim>\<open>parseDebitInstruction\<close> and of \<^verbatim>\<open>parseCreditInstruction\<close>.\<close>

definition debitOrder :: "positions \<Rightarrow> bool" where
  "debitOrder P =
     (debitPos P < fromPos P \<and> fromPos P < accountPos1 P \<and> accountPos1 P < forPos P \<and>
      forPos P < creditPos P \<and> creditPos P < toPos P \<and> toPos P < accountPos2 P)"

definition creditOrder :: "positions \<Rightarrow> bool" where
  "creditOrder P =
     (creditPos P < toPos P \<and> toPos P < accountPos1 P \<and> accountPos1 P < forPos P \<and>
      forPos P < debitPos P \<and> debitPos P < fromPos P \<and> fromPos P < accountPos2 P)"

text \<open>\<^verbatim>\<open>part.split(' ').filter((t) => t.length > 0)\<close>\<close>

definition tokens :: "string \<Rightarrow> string list" where
  "tokens part = filter (\<lambda>t. length t > 0) (split CHR '' '' part)"

definition parseDebitInstruction :: "string \<Rightarrow> string + draft" where
  "parseDebitInstruction instruction =
     (let upper = toUpperCase instruction; P = debitPositions upper in
      if debitPos P = - 1 then Inl ''Missing required keyword: DEBIT''
      else if fromPos P = - 1 then Inl ''Missing required keyword: FROM''
      else if accountPos1 P = - 1 then Inl ''Missing required keyword: ACCOUNT after FROM''
      else if forPos P = - 1 then Inl ''Missing required keyword: FOR''
      else if creditPos P = - 1 then Inl ''Missing required keyword: CREDIT''
      else if toPos P = - 1 then Inl ''Missing required keyword: TO''
      else if accountPos2 P = - 1 then Inl ''Missing required keyword: ACCOUNT after TO''
      else if \<not> debitOrder P then Inl (STATUS_CODES SY02)
      else
        (let amountCurrencyPart = trim (substring instruction (debitPos P + 5) (fromPos P));
             amountCurrencyTokens = tokens amountCurrencyPart
         in if length amountCurrencyTokens \<noteq> 2
            then Inl ''Invalid format: expected amount and currency after DEBIT''
            else Inr \<lparr>ptype = DEBIT,
                      amount = amountCurrencyTokens ! 0,
                      currency = toUpperCase (amountCurrencyTokens ! 1),
                      debitAccount = trim (substring instruction (accountPos1 P + 7) (forPos P)),
                      creditAccount =
                        (if onPos P > accountPos2 P
                         then trim (substring instruction (accountPos2 P + 7) (onPos P))
                         else trim (substringFrom instruction (accountPos2 P + 7))),
                      executeBy =
                        (if onPos P > accountPos2 P
                         then Some (trim (substringFrom instruction (onPos P + 2)))
                         else None)\<rparr>))"

definition parseCreditInstruction :: "string \<Rightarrow> string + draft" where
  "parseCreditInstruction instruction =
     (let upper = toUpperCase instruction; P = creditPositions upper in
      if creditPos P = - 1 then Inl ''Missing required keyword: CREDIT''
      else if toPos P = - 1 then Inl ''Missing required keyword: TO''
      else if accountPos1 P = - 1 then Inl ''Missing required keyword: ACCOUNT after TO''
      else if forPos P = - 1 then Inl ''Missing required keyword: FOR''
      else if debitPos P = - 1 then Inl ''Missing required keyword: DEBIT''
      else if fromPos P = - 1 then Inl ''Missing required keyword: FROM''
      else if accountPos2 P = - 1 then Inl ''Missing required keyword: ACCOUNT after FROM''
      else if \<not> creditOrder P then Inl (STATUS_CODES SY02)
      else
        (let amountCurrencyPart = trim (substring instruction (creditPos P + 6) (toPos P));
             amountCurrencyTokens = tokens amountCurrencyPart
         in if length amountCurrencyTokens \<noteq> 2
            then Inl ''Invalid format: expected amount and currency after CREDIT''
            else Inr \<lparr>ptype = CREDIT,
                      amount = amountCurrencyTokens ! 0,
                      currency = toUpperCase (amountCurrencyTokens ! 1),
                      debitAccount =
                        (if onPos P > accountPos2 P
                         then trim (substring instruction (accountPos2 P + 7) (onPos P))
                         else trim (substringFrom instruction (accountPos2 P + 7))),
                      creditAccount = trim (substring instruction (accountPos1 P + 7) (forPos P)),
                      executeBy =
                        (if onPos P > accountPos2 P
                         then Some (trim (substringFrom instruction (onPos P + 2)))
                         else None)\<rparr>))"

text \<open>\<^verbatim>\<open>instruction.trim().split(' ').filter((word) => word.length > 0).join(' ')\<close>\<close>

definition normalize :: "string \<Rightarrow> string" where
  "normalize instruction = join '' '' (tokens (trim instruction))"

text \<open>\<^verbatim>\<open>parseInstruction\<close>. The \<^verbatim>\<open>catch\<close> clause turns every thrown \<^verbatim>\<open>Error\<close> into
  the code \<open>SY03\<close> with the error's message (the messages thrown are never empty, so
  \<^verbatim>\<open>error.message || STATUS_CODES.SY03\<close> is the message).\<close>

definition parseInstruction :: "string \<Rightarrow> failure + draft" where
  "parseInstruction instruction =
     (if instruction = [] then Inl \<lparr>statusCode = SY03, statusReason = STATUS_CODES SY03\<rparr>
      else
        (let normalized = normalize instruction; upper = toUpperCase normalized in
         if indexOf upper ''DEBIT'' 0 = 0 then
           (case parseDebitInstruction normalized of
              Inl message \<Rightarrow>
                Inl \<lparr>statusCode = SY03,
                     statusReason = (if message = [] then STATUS_CODES SY03 else message)\<rparr>
            | Inr result \<Rightarrow> Inr result)
         else if indexOf upper ''CREDIT'' 0 = 0 then
           (case parseCreditInstruction normalized of
              Inl message \<Rightarrow>
                Inl \<lparr>statusCode = SY03,
                     statusReason = (if message = [] then STATUS_CODES SY03 else message)\<rparr>
            | Inr result \<Rightarrow> Inr result)
         else Inl \<lparr>statusCode = SY01,
                   statusReason = ''Missing required keyword: DEBIT or CREDIT''\<rparr>))"

subsection \<open>Numbers of the host language\<close>

text \<open>
  The numbers this program meets are integer-valued doubles (amounts come from
  \<^verbatim>\<open>parseInt\<close>, balances are integers by the data model), NaN and the infinities.
  \<open>Num i\<close> is the double of value \<open>i\<close>; negative zero is identified with \<open>Num 0\<close>
  (the program cannot tell them apart: both are falsy, both print as \<^verbatim>\<open>0\<close>).
\<close>

datatype jsnum = NaN | Num int | PosInf | NegInf

function bitlen :: "int \<Rightarrow> nat" where
  "bitlen n = (if n \<le> 0 then 0 else Suc (bitlen (n div 2)))"
  by pat_completeness auto
termination
  by (relation "measure nat") auto

declare bitlen.simps [simp del]

text \<open>Rounding a non-negative integer to 53 significant bits, to nearest, ties to even.\<close>

definition round53 :: "int \<Rightarrow> int" where
  "round53 n =
     (if n < 2 ^ 53 then n
      else
        (let e = bitlen n - 53; q = n div 2 ^ e; r = n mod 2 ^ e; h = 2 ^ (e - 1) in
         if r < h \<or> (r = h \<and> even q) then q * 2 ^ e else (q + 1) * 2 ^ e))"

text \<open>The Number value of a mathematical integer: rounded, infinite from \<open>2^1024\<close> on.\<close>

definition toNumber :: "int \<Rightarrow> jsnum" where
  "toNumber i =
     (let m = round53 \<bar>i\<bar> in
      if 2 ^ 1024 \<le> m then (if i < 0 then NegInf else PosInf)
      else Num (if i < 0 then - m else m))"

fun js_neg :: "jsnum \<Rightarrow> jsnum" where
  "js_neg NaN = NaN"
| "js_neg (Num i) = Num (- i)"
| "js_neg PosInf = NegInf"
| "js_neg NegInf = PosInf"

text \<open>\<^verbatim>\<open>a + b\<close> and \<^verbatim>\<open>a - b\<close> on numbers: the exact result, rounded.\<close>

fun js_add :: "jsnum \<Rightarrow> jsnum \<Rightarrow> jsnum" where
  "js_add (Num a) (Num b) = toNumber (a + b)"
| "js_add NaN _ = NaN"
| "js_add _ NaN = NaN"
| "js_add PosInf NegInf = NaN"
| "js_add NegInf PosInf = NaN"
| "js_add PosInf _ = PosInf"
| "js_add _ PosInf = PosInf"
| "js_add NegInf _ = NegInf"
| "js_add _ NegInf = NegInf"

definition js_sub :: "jsnum \<Rightarrow> jsnum \<Rightarrow> jsnum" where
  "js_sub a b = js_add a (js_neg b)"

text \<open>\<^verbatim>\<open>a < b\<close> and \<^verbatim>\<open>a <= b\<close>: false as soon as one side is NaN.\<close>

fun js_lt :: "jsnum \<Rightarrow> jsnum \<Rightarrow> bool" where
  "js_lt (Num a) (Num b) = (a < b)"
| "js_lt NaN _ = False"
| "js_lt _ NaN = False"
| "js_lt PosInf _ = False"
| "js_lt _ NegInf = False"
| "js_lt _ PosInf = True"
| "js_lt NegInf _ = True"

fun js_le :: "jsnum \<Rightarrow> jsnum \<Rightarrow> bool" where
  "js_le (Num a) (Num b) = (a \<le> b)"
| "js_le NaN _ = False"
| "js_le _ NaN = False"
| "js_le NegInf _ = True"
| "js_le _ PosInf = True"
| "js_le PosInf _ = False"
| "js_le _ NegInf = False"

fun isNaN :: "jsnum \<Rightarrow> bool" where
  "isNaN NaN = True"
| "isNaN _ = False"

text \<open>Truthiness of a number: NaN and zero are falsy.\<close>

fun truthyNum :: "jsnum \<Rightarrow> bool" where
  "truthyNum NaN = False"
| "truthyNum (Num i) = (i \<noteq> 0)"
| "truthyNum _ = True"

definition isDigit :: "char \<Rightarrow> bool" where
  "isDigit c = (let n = (of_char c :: nat) in 48 \<le> n \<and> n \<le> 57)"

definition digitVal :: "char \<Rightarrow> int" where
  "digitVal c = int (of_char c) - 48"

definition digitChar :: "int \<Rightarrow> char" where
  "digitChar d = ''0123456789'' ! nat d"

definition digitsValue :: "string \<Rightarrow> int" where
  "digitsValue z = foldl (\<lambda>a c. 10 * a + digitVal c) 0 z"

text \<open>\<^verbatim>\<open>parseInt(s, 10)\<close>: leading white space is skipped, one sign is read, then the
  longest run of decimal digits; no digit gives NaN. The value is converted exactly
  (correctly rounded), as the engines do.\<close>

definition parseInt :: "string \<Rightarrow> jsnum" where
  "parseInt s =
     (let t = dropWhile isWhiteSpace s;
          negative = (case t of [] \<Rightarrow> False | c # _ \<Rightarrow> c = CHR ''-'');
          u = (case t of [] \<Rightarrow> [] | c # cs \<Rightarrow> if c = CHR ''+'' \<or> c = CHR ''-'' then cs else t);
          z = takeWhile isDigit u
      in if z = [] then NaN
         else toNumber (if negative then - digitsValue z else digitsValue z))"

text \<open>The decimal digits of a non-negative integer.\<close>

function digits10 :: "int \<Rightarrow> string" where
  "digits10 n = (if n < 10 then [digitChar n] else digits10 (n div 10) @ [digitChar (n mod 10)])"
  by pat_completeness auto
termination
  by (relation "measure nat") auto

declare digits10.simps [simp del]

text \<open>
  Number-to-string conversion of a positive integer-valued double \<open>x\<close> picks the decimal
  with the fewest significant digits that still rounds to \<open>x\<close>, the closest to \<open>x\<close> when
  there are several (the even one on a tie). \<open>shortest x j\<close> searches the decimals with
  at least \<open>j\<close> trailing zeros downwards; only the two multiples of \<open>10^j\<close> next to \<open>x\<close>
  can round to \<open>x\<close>.
\<close>

fun shortest :: "int \<Rightarrow> nat \<Rightarrow> int" where
  "shortest x 0 = x"
| "shortest x (Suc j) =
     (let p = 10 ^ Suc j; lo = (x div p) * p; hi = lo + p;
          oklo = (round53 lo = x); okhi = (round53 hi = x)
      in if oklo \<and> okhi then
           (if x - lo < hi - x then lo
            else if hi - x < x - lo then hi
            else if even (lo div p) then lo else hi)
         else if oklo then lo
         else if okhi then hi
         else shortest x j)"

definition stripZeros :: "string \<Rightarrow> string" where
  "stripZeros ds = rev (dropWhile (\<lambda>c. c = CHR ''0'') (rev ds))"

text \<open>The string of a positive integer-valued double with decimal digits \<open>ds\<close>: plain digits
  up to 21 of them, exponent notation from there on.\<close>

definition exponentString :: "string \<Rightarrow> string" where
  "exponentString ds =
     (case stripZeros ds of
        [] \<Rightarrow> []
      | [d] \<Rightarrow> d # ''e+'' @ digits10 (int (length ds) - 1)
      | d # f # fs \<Rightarrow> d # CHR ''.'' # f # fs @ ''e+'' @ digits10 (int (length ds) - 1))"

definition positiveToString :: "int \<Rightarrow> string" where
  "positiveToString x =
     (let ds = digits10 (shortest x (length (digits10 x) - 1)) in
      if length ds \<le> 21 then ds else exponentString ds)"

text \<open>\<^verbatim>\<open>String(x)\<close>\<close>

fun numberToString :: "jsnum \<Rightarrow> string" where
  "numberToString NaN = ''NaN''"
| "numberToString PosInf = ''Infinity''"
| "numberToString NegInf = ''-Infinity''"
| "numberToString (Num i) =
     (if i = 0 then ''0''
      else if i < 0 then CHR ''-'' # positiveToString (- i)
      else positiveToString i)"

subsection \<open>The engine: date parsing and the clock\<close>

text \<open>
  \<^verbatim>\<open>new Date(str)\<close> and \<^verbatim>\<open>new Date()\<close> are services of the engine and not code of
  this program, so they are inputs of the model. Time values are milliseconds since the
  epoch.
  \<^item> \<open>Date_parse str\<close> is the time value of \<^verbatim>\<open>new Date(str)\<close>, \<open>None\<close> when it is NaN;
  \<^item> \<open>now\<close> is the time value of \<^verbatim>\<open>new Date()\<close>;
  \<^item> \<open>utcDateOnly t\<close> is \<^verbatim>\<open>Date.UTC(d.getUTCFullYear(), d.getUTCMonth(), d.getUTCDate())\<close>
    for the date \<open>d\<close> of time value \<open>t\<close>.
\<close>

record engine =
  Date_parse :: "string \<Rightarrow> int option"
  now :: int
  utcDateOnly :: "int \<Rightarrow> int"

subsection \<open>Accounts\<close>

record account =
  acc_id :: string
  acc_balance :: jsnum
  acc_currency :: string

text \<open>\<^verbatim>\<open>accounts.find(pred)\<close> is \<^const>\<open>List.find\<close>; the position of the object found.\<close>

fun findIndex :: "('a \<Rightarrow> bool) \<Rightarrow> 'a list \<Rightarrow> nat option" where
  "findIndex P [] = None"
| "findIndex P (x # xs) = (if P x then Some 0 else map_option Suc (findIndex P xs))"

subsection \<open>Validation\<close>

definition SUPPORTED_CURRENCIES :: "string list" where
  "SUPPORTED_CURRENCIES = [''NGN'', ''USD'', ''GBP'', ''GHS'']"

definition isIdChar :: "char \<Rightarrow> bool" where
  "isIdChar c =
     (let n = (of_char c :: nat) in
      (97 \<le> n \<and> n \<le> 122) \<or> (65 \<le> n \<and> n \<le> 90) \<or> (48 \<le> n \<and> n \<le> 57) \<or>
      c = CHR ''-'' \<or> c = CHR ''.'' \<or> c = CHR ''@'')"

definition isValidAccountId :: "string \<Rightarrow> bool" where
  "isValidAccountId ident = (if ident = [] then False else list_all isIdChar ident)"

definition dateFormatError :: failure where
  "dateFormatError =
     \<lparr>statusCode = DT01, statusReason = ''Invalid date format. Expected YYYY-MM-DD''\<rparr>"

text \<open>\<^verbatim>\<open>validateDate\<close>: \<open>Inr t\<close> is \<^verbatim>\<open>{ error: false, date }\<close> with the date's time value.\<close>

definition validateDate :: "engine \<Rightarrow> string \<Rightarrow> failure + int" where
  "validateDate eng dateStr =
     (if dateStr = [] \<or> length dateStr \<noteq> 10 then Inl dateFormatError
      else if \<not> (dateStr ! 4 = CHR ''-'' \<and> dateStr ! 7 = CHR ''-'') then Inl dateFormatError
      else
        (let year = substring dateStr 0 4;
             month = substring dateStr 5 7;
             day = substring dateStr 8 10
         in if \<not> list_all isDigit year then Inl dateFormatError
            else if \<not> list_all isDigit month then Inl dateFormatError
            else if \<not> list_all isDigit day then Inl dateFormatError
            else
              (case Date_parse eng (dateStr @ ''T00:00:00.000Z'') of
                 None \<Rightarrow> Inl \<lparr>statusCode = DT01, statusReason = ''Invalid date''\<rparr>
               | Some date \<Rightarrow> Inr date)))"

text \<open>Truthiness of \<^verbatim>\<open>parsed.executeBy\<close>: \<^verbatim>\<open>null\<close> and the empty string are falsy.\<close>

fun truthyStr :: "string option \<Rightarrow> bool" where
  "truthyStr None = False"
| "truthyStr (Some s) = (s \<noteq> [])"

text \<open>The first rule of \<^verbatim>\<open>validateInstruction\<close> (both \<^verbatim>\<open>if\<close> statements that return
  \<open>AM01\<close>): \<open>True\<close> when the amount is rejected.\<close>

definition amountRejected :: "string \<Rightarrow> bool" where
  "amountRejected raw =
     (if raw = [] \<or> \<not> (indexOf raw ''.'' 0 = - 1 \<and> indexOf raw ''-'' 0 = - 1) then True
      else
        (let amountNum = parseInt raw in
         isNaN amountNum \<or> js_le amountNum (Num 0) \<or> raw \<noteq> numberToString amountNum))"

text \<open>\<^verbatim>\<open>validateInstruction\<close>: \<open>None\<close> is \<^verbatim>\<open>{ error: false }\<close>.\<close>

definition validateInstruction :: "engine \<Rightarrow> draft \<Rightarrow> account list \<Rightarrow> failure option" where
  "validateInstruction eng parsed accounts =
     (if amountRejected (amount parsed)
      then Some \<lparr>statusCode = AM01, statusReason = STATUS_CODES AM01\<rparr>
      else
        (let amountNum = parseInt (amount parsed) in
         if currency parsed \<notin> set SUPPORTED_CURRENCIES
         then Some \<lparr>statusCode = CU02, statusReason = STATUS_CODES CU02\<rparr>
         else if \<not> isValidAccountId (debitAccount parsed)
         then Some \<lparr>statusCode = AC04,
                     statusReason = ''Invalid account ID format for debit account''\<rparr>
         else if \<not> isValidAccountId (creditAccount parsed)
         then Some \<lparr>statusCode = AC04,
                     statusReason = ''Invalid account ID format for credit account''\<rparr>
         else if debitAccount parsed = creditAccount parsed
         then Some \<lparr>statusCode = AC02, statusReason = STATUS_CODES AC02\<rparr>
         else
           (case List.find (\<lambda>acc. acc_id acc = debitAccount parsed) accounts of
              None \<Rightarrow>
                Some \<lparr>statusCode = AC03,
                      statusReason = ''Account not found: '' @ debitAccount parsed\<rparr>
            | Some debitAcc \<Rightarrow>
                (case List.find (\<lambda>acc. acc_id acc = creditAccount parsed) accounts of
                   None \<Rightarrow>
                     Some \<lparr>statusCode = AC03,
                           statusReason = ''Account not found: '' @ creditAccount parsed\<rparr>
                 | Some creditAcc \<Rightarrow>
                     if toUpperCase (acc_currency debitAcc) \<noteq> currency parsed
                     then Some \<lparr>statusCode = CU01, statusReason = STATUS_CODES CU01\<rparr>
                     else if toUpperCase (acc_currency creditAcc) \<noteq> currency parsed
                     then Some \<lparr>statusCode = CU01, statusReason = STATUS_CODES CU01\<rparr>
                     else if js_lt (acc_balance debitAcc) amountNum
                     then Some \<lparr>statusCode = AC01,
                                 statusReason =
                                   ''Insufficient funds in account '' @ debitAccount parsed @
                                   '': has '' @ numberToString (acc_balance debitAcc) @ '' '' @
                                   currency parsed @ '', needs '' @ numberToString amountNum @
                                   '' '' @ currency parsed\<rparr>
                     else if truthyStr (executeBy parsed)
                     then (case validateDate eng (the (executeBy parsed)) of
                             Inl dateValidation \<Rightarrow> Some dateValidation
                           | Inr date \<Rightarrow> None)
                     else None))))"

subsection \<open>Scheduling\<close>

text \<open>The three \<^verbatim>\<open>return\<close> statements of \<^verbatim>\<open>shouldExecuteImmediately\<close>, in order.\<close>

datatype decision = NoDate | InvalidDate | Compared bool

definition scheduleBranch :: "engine \<Rightarrow> string option \<Rightarrow> decision" where
  "scheduleBranch eng execBy =
     (if \<not> truthyStr execBy then NoDate
      else
        (case validateDate eng (the execBy) of
           Inl dateValidation \<Rightarrow> InvalidDate
         | Inr targetDate \<Rightarrow>
             Compared (utcDateOnly eng targetDate \<le> utcDateOnly eng (now eng))))"

fun returned :: "decision \<Rightarrow> bool" where
  "returned NoDate = True"
| "returned InvalidDate = False"
| "returned (Compared b) = b"

definition shouldExecuteImmediately :: "engine \<Rightarrow> string option \<Rightarrow> bool" where
  "shouldExecuteImmediately eng execBy = returned (scheduleBranch eng execBy)"

subsection \<open>Execution\<close>

text \<open>An entry of the response's \<^verbatim>\<open>accounts\<close> list.\<close>

record snapshot =
  snap_id :: string
  snap_balance :: jsnum
  snap_balance_before :: jsnum
  snap_currency :: string

text \<open>
  \<^verbatim>\<open>executeTransaction\<close> updates the two objects found in place. The account list is the
  store: an object is its position in the list, so the function returns the list after the
  two updates, with the two snapshots. \<open>None\<close> is the \<^verbatim>\<open>TypeError\<close> raised when a
  \<^verbatim>\<open>find\<close> returns \<^verbatim>\<open>undefined\<close> (nothing has been written then).
\<close>

definition executeTransaction ::
    "draft \<Rightarrow> account list \<Rightarrow> ((snapshot \<times> snapshot) \<times> account list) option" where
  "executeTransaction parsed accounts =
     (let amountNum = parseInt (amount parsed) in
      case findIndex (\<lambda>acc. acc_id acc = debitAccount parsed) accounts of
        None \<Rightarrow> None
      | Some d \<Rightarrow>
          (case findIndex (\<lambda>acc. acc_id acc = creditAccount parsed) accounts of
             None \<Rightarrow> None
           | Some c \<Rightarrow>
               (let debitBalanceBefore = acc_balance (accounts ! d);
                    creditBalanceBefore = acc_balance (accounts ! c);
                    accounts1 =
                      accounts[d := (accounts ! d)
                        \<lparr>acc_balance := js_sub (acc_balance (accounts ! d)) amountNum\<rparr>];
                    accounts2 =
                      accounts1[c := (accounts1 ! c)
                        \<lparr>acc_balance := js_add (acc_balance (accounts1 ! c)) amountNum\<rparr>];
                    debitAcc = accounts2 ! d;
                    creditAcc = accounts2 ! c
                in Some ((\<lparr>snap_id = acc_id debitAcc, snap_balance = acc_balance debitAcc,
                            snap_balance_before = debitBalanceBefore,
                            snap_currency = toUpperCase (acc_currency debitAcc)\<rparr>,
                          \<lparr>snap_id = acc_id creditAcc, snap_balance = acc_balance creditAcc,
                            snap_balance_before = creditBalanceBefore,
                            snap_currency = toUpperCase (acc_currency creditAcc)\<rparr>),
                         accounts2))))"

subsection \<open>The service\<close>

datatype status = Successful | Pending | Failed

record payload =
  p_type :: "instr_type option"
  p_amount :: "jsnum option"
  p_currency :: "string option"
  debit_account :: "string option"
  credit_account :: "string option"
  execute_by :: "string option"
  p_status :: status
  status_reason :: string
  status_code :: status_code
  p_accounts :: "snapshot list"

record response =
  httpStatus :: nat
  data :: payload

text \<open>The \<^verbatim>\<open>forEach\<close> loop of the failure and pending branches.\<close>

definition unchangedSnapshots :: "draft \<Rightarrow> account list \<Rightarrow> snapshot list" where
  "unchangedSnapshots parsed accounts =
     map (\<lambda>acc. \<lparr>snap_id = acc_id acc, snap_balance = acc_balance acc,
                  snap_balance_before = acc_balance acc,
                  snap_currency = toUpperCase (acc_currency acc)\<rparr>)
       (filter (\<lambda>acc. acc_id acc = debitAccount parsed \<or> acc_id acc = creditAccount parsed)
          accounts)"

text \<open>The \<^verbatim>\<open>forEach\<close> loop of the success branch.\<close>

definition executedSnapshots ::
    "draft \<Rightarrow> snapshot \<times> snapshot \<Rightarrow> account list \<Rightarrow> snapshot list" where
  "executedSnapshots parsed result accounts =
     map (\<lambda>acc. if acc_id acc = debitAccount parsed then fst result else snd result)
       (filter (\<lambda>acc. acc_id acc = debitAccount parsed \<or> acc_id acc = creditAccount parsed)
          accounts)"

text \<open>\<^verbatim>\<open>parseInt(parsed.amount, 10) || null\<close>\<close>

definition amountOrNull :: "string \<Rightarrow> jsnum option" where
  "amountOrNull raw = (if truthyNum (parseInt raw) then Some (parseInt raw) else None)"

text \<open>
  \<^verbatim>\<open>paymentInstructionsService\<close>. The result is the response and the account list after
  the call; \<open>None\<close> is an exception escaping the function.
\<close>

definition paymentInstructionsService ::
    "engine \<Rightarrow> account list \<Rightarrow> string \<Rightarrow> (response \<times> account list) option" where
  "paymentInstructionsService eng accounts instruction =
     (case parseInstruction instruction of
        Inl parsed \<Rightarrow>
          Some (\<lparr>httpStatus = 400,
                  data = \<lparr>p_type = None, p_amount = None, p_currency = None,
                          debit_account = None, credit_account = None, execute_by = None,
                          p_status = Failed, status_reason = statusReason parsed,
                          status_code = statusCode parsed, p_accounts = []\<rparr>\<rparr>,
                accounts)
      | Inr parsed \<Rightarrow>
          (case validateInstruction eng parsed accounts of
             Some validation \<Rightarrow>
               Some (\<lparr>httpStatus = 400,
                       data = \<lparr>p_type = Some (ptype parsed),
                               p_amount = amountOrNull (amount parsed),
                               p_currency = Some (currency parsed),
                               debit_account = Some (debitAccount parsed),
                               credit_account = Some (creditAccount parsed),
                               execute_by = executeBy parsed,
                               p_status = Failed, status_reason = statusReason validation,
                               status_code = statusCode validation,
                               p_accounts = unchangedSnapshots parsed accounts\<rparr>\<rparr>,
                     accounts)
           | None \<Rightarrow>
               if \<not> shouldExecuteImmediately eng (executeBy parsed) then
                 Some (\<lparr>httpStatus = 200,
                         data = \<lparr>p_type = Some (ptype parsed),
                                 p_amount = Some (parseInt (amount parsed)),
                                 p_currency = Some (currency parsed),
                                 debit_account = Some (debitAccount parsed),
                                 credit_account = Some (creditAccount parsed),
                                 execute_by = executeBy parsed,
                                 p_status = Pending, status_reason = STATUS_CODES AP02,
                                 status_code = AP02,
                                 p_accounts = unchangedSnapshots parsed accounts\<rparr>\<rparr>,
                       accounts)
               else
                 (case executeTransaction parsed accounts of
                    None \<Rightarrow> None
                  | Some (result, accounts') \<Rightarrow>
                      Some (\<lparr>httpStatus = 200,
                              data = \<lparr>p_type = Some (ptype parsed),
                                      p_amount = Some (parseInt (amount parsed)),
                                      p_currency = Some (currency parsed),
                                      debit_account = Some (debitAccount parsed),
                                      credit_account = Some (creditAccount parsed),
                                      execute_by = executeBy parsed,
                                      p_status = Successful, status_reason = STATUS_CODES AP00,
                                      status_code = AP00,
                                      p_accounts = executedSnapshots parsed result accounts'\<rparr>\<rparr>,
                            accounts'))))"

subsection \<open>A reference engine\<close>

text \<open>
  A concrete engine for the worked examples below: it reads the date-time format
  \<^verbatim>\<open>YYYY-MM-DDT00:00:00.000Z\<close> of the language standard, rejects a month outside
  \<open>1..12\<close> and a day the month does not have, and counts days in the proleptic Gregorian
  calendar. \<^verbatim>\<open>Date.UTC\<close> reads a year of \<open>0..99\<close> as \<open>1900 + year\<close>.
  Engines differ on a day of \<open>29..31\<close> that the month does not have (some carry it over
  into the next month instead of rejecting it); the examples use existing dates only, and
  the theorems that hold for every engine take the engine as a parameter.
\<close>

definition daysFromCivil :: "int \<Rightarrow> int \<Rightarrow> int \<Rightarrow> int" where
  "daysFromCivil y m d =
     (let y' = (if m \<le> 2 then y - 1 else y);
          era = y' div 400;
          yoe = y' - era * 400;
          doy = (153 * (if m > 2 then m - 3 else m + 9) + 2) div 5 + d - 1;
          doe = yoe * 365 + yoe div 4 - yoe div 100 + doy
      in era * 146097 + doe - 719468)"

definition civilFromDays :: "int \<Rightarrow> int \<times> int \<times> int" where
  "civilFromDays z0 =
     (let z = z0 + 719468;
          era = z div 146097;
          doe = z - era * 146097;
          yoe = (doe - doe div 1460 + doe div 36524 - doe div 146096) div 365;
          doy = doe - (365 * yoe + yoe div 4 - yoe div 100);
          mp = (5 * doy + 2) div 153;
          d = doy - (153 * mp + 2) div 5 + 1;
          m = (if mp < 10 then mp + 3 else mp - 9);
          y = yoe + era * 400
      in (if m \<le> 2 then y + 1 else y, m, d))"

definition isLeapYear :: "int \<Rightarrow> bool" where
  "isLeapYear y = (y mod 4 = 0 \<and> (y mod 100 \<noteq> 0 \<or> y mod 400 = 0))"

definition daysInMonth :: "int \<Rightarrow> int \<Rightarrow> int" where
  "daysInMonth y m =
     (if m = 2 then (if isLeapYear y then 29 else 28)
      else if m = 4 \<or> m = 6 \<or> m = 9 \<or> m = 11 then 30 else 31)"

definition msPerDay :: int where
  "msPerDay = 86400000"

definition isoDateParse :: "string \<Rightarrow> int option" where
  "isoDateParse str =
     (if length str = 24 \<and> drop 10 str = ''T00:00:00.000Z'' \<and> str ! 4 = CHR ''-'' \<and>
         str ! 7 = CHR ''-'' \<and> list_all isDigit (take 4 str) \<and>
         list_all isDigit (take 2 (drop 5 str)) \<and> list_all isDigit (take 2 (drop 8 str))
      then
        (let y = digitsValue (take 4 str);
             m = digitsValue (take 2 (drop 5 str));
             d = digitsValue (take 2 (drop 8 str))
         in if 1 \<le> m \<and> m \<le> 12 \<and> 1 \<le> d \<and> d \<le> daysInMonth y m
            then Some (daysFromCivil y m d * msPerDay) else None)
      else None)"

definition dateOnlyUTC :: "int \<Rightarrow> int" where
  "dateOnlyUTC t =
     (case civilFromDays (t div msPerDay) of
        (y, m, d) \<Rightarrow> daysFromCivil (if 0 \<le> y \<and> y \<le> 99 then 1900 + y else y) m d * msPerDay)"

definition referenceEngine :: "int \<Rightarrow> engine" where
  "referenceEngine clock = \<lparr>Date_parse = isoDateParse, now = clock, utcDateOnly = dateOnlyUTC\<rparr>"

section \<open>The specification's notions\<close>

subsection \<open>The validator chain as the specification lists it\<close>

text \<open>The account an identifier resolves to: the first one of the list that carries it.\<close>

definition resolve :: "string \<Rightarrow> account list \<Rightarrow> account option" where
  "resolve ident accounts = List.find (\<lambda>acc. acc_id acc = ident) accounts"

text \<open>
  The rules in the order of the specification, each with its code; the Boolean says that
  the rule is violated. The rules on currency match and funds speak about the resolved
  accounts; the date rule applies only when a date was supplied, that is when the draft
  carries a non-empty date string.
\<close>

definition ruleChain :: "engine \<Rightarrow> draft \<Rightarrow> account list \<Rightarrow> (bool \<times> status_code) list" where
  "ruleChain eng d accounts =
     [(amountRejected (amount d), AM01),
      (currency d \<notin> set SUPPORTED_CURRENCIES, CU02),
      (\<not> isValidAccountId (debitAccount d), AC04),
      (\<not> isValidAccountId (creditAccount d), AC04),
      (debitAccount d = creditAccount d, AC02),
      (resolve (debitAccount d) accounts = None, AC03),
      (resolve (creditAccount d) accounts = None, AC03),
      (case resolve (debitAccount d) accounts of
         None \<Rightarrow> False | Some a \<Rightarrow> toUpperCase (acc_currency a) \<noteq> currency d, CU01),
      (case resolve (creditAccount d) accounts of
         None \<Rightarrow> False | Some a \<Rightarrow> toUpperCase (acc_currency a) \<noteq> currency d, CU01),
      (case resolve (debitAccount d) accounts of
         None \<Rightarrow> False | Some a \<Rightarrow> js_lt (acc_balance a) (parseInt (amount d)), AC01),
      (truthyStr (executeBy d) \<and> isl (validateDate eng (the (executeBy d))), DT01)]"

text \<open>The code of the first violated rule, \<open>None\<close> when no rule is violated.\<close>

definition firstViolated :: "(bool \<times> status_code) list \<Rightarrow> status_code option" where
  "firstViolated rules = map_option snd (List.find fst rules)"

subsection \<open>An instruction that ends with the \<^verbatim>\<open>ON\<close> keyword\<close>







subsection \<open>Balances as integers\<close>

text \<open>The integer a number stands for (the amount of money of a balance), and the sum of
  all balances of an account list.\<close>

fun intOf :: "jsnum \<Rightarrow> int" where
  "intOf (Num i) = i"
| "intOf _ = 0"

definition totalBalance :: "account list \<Rightarrow> int" where
  "totalBalance accounts = sum_list (map (\<lambda>acc. intOf (acc_balance acc)) accounts)"

subsection \<open>What a caller observes\<close>

text \<open>The outcome of a call: status, status code and the balances of the account list after
  the call; and the two accounts the response names.\<close>

definition outcome ::
    "(response \<times> account list) option \<Rightarrow> (status \<times> status_code \<times> jsnum list) option" where
  "outcome r =
     map_option (\<lambda>(resp, accounts'). (p_status (data resp), status_code (data resp),
        map acc_balance accounts')) r"

definition parties ::
    "(response \<times> account list) option \<Rightarrow> (string option \<times> string option) option" where
  "parties r =
     map_option (\<lambda>(resp, accounts'). (debit_account (data resp), credit_account (data resp))) r"

subsection \<open>Sequential binding of the keywords\<close>

text \<open>\<open>k\<close> occurs in \<open>s\<close> at offset \<open>p\<close>.\<close>

definition occursAt :: "string \<Rightarrow> string \<Rightarrow> nat \<Rightarrow> bool" where
  "occursAt s k p = (take (length k) (drop p s) = k)"

text \<open>No occurrence of \<open>k2\<close> can start inside the first \<open>n\<close> characters of an occurrence of
  \<open>k1\<close>: at each such offset the two keywords disagree on some character.\<close>

definition overlapFree :: "string \<Rightarrow> string \<Rightarrow> nat \<Rightarrow> bool" where
  "overlapFree k1 k2 n =
     list_all (\<lambda>d. list_ex (\<lambda>i. d + i < length k1 \<and> k1 ! (d + i) \<noteq> k2 ! i) [0..<length k2])
       [0..<n]"

text \<open>
  Every keyword after the first is bound to its first occurrence at or after the end of the
  occurrence of the preceding keyword, that is, the search for it starts right after the
  preceding keyword. The parameter \<open>c\<close> is the number of characters of \<^verbatim>\<open>CREDIT\<close> that
  the search for \<^verbatim>\<open>TO\<close> skips: \<open>6\<close> is all of the keyword.
\<close>

definition debitBinding :: "int \<Rightarrow> string \<Rightarrow> positions \<Rightarrow> bool" where
  "debitBinding c upper P =
     (fromPos P = indexOf upper ''FROM'' (debitPos P + 5) \<and>
      accountPos1 P = indexOf upper ''ACCOUNT'' (fromPos P + 4) \<and>
      forPos P = indexOf upper ''FOR'' (accountPos1 P + 7) \<and>
      creditPos P = indexOf upper ''CREDIT'' (forPos P + 3) \<and>
      toPos P = indexOf upper ''TO'' (creditPos P + c) \<and>
      accountPos2 P = indexOf upper ''ACCOUNT'' (toPos P + 2) \<and>
      onPos P = indexOf upper ''ON'' (accountPos2 P + 7))"

definition creditBinding :: "int \<Rightarrow> string \<Rightarrow> positions \<Rightarrow> bool" where
  "creditBinding c upper P =
     (toPos P = indexOf upper ''TO'' (creditPos P + c) \<and>
      accountPos1 P = indexOf upper ''ACCOUNT'' (toPos P + 2) \<and>
      forPos P = indexOf upper ''FOR'' (accountPos1 P + 7) \<and>
      debitPos P = indexOf upper ''DEBIT'' (forPos P + 3) \<and>
      fromPos P = indexOf upper ''FROM'' (debitPos P + 5) \<and>
      accountPos2 P = indexOf upper ''ACCOUNT'' (fromPos P + 4) \<and>
      onPos P = indexOf upper ''ON'' (accountPos2 P + 7))"

section \<open>Properties\<close>

subsection \<open>Error codes of the parser\<close>

text \<open>
  Claim C1. A keyword of the fixed sequence that cannot be found is reported with code
  \<open>SY01\<close>, and keywords that are all found but out of order with code \<open>SY02\<close>.

  The code does not do this. Only a missing leading \<^verbatim>\<open>DEBIT\<close>/\<^verbatim>\<open>CREDIT\<close> is
  reported as \<open>SY01\<close>. Every later keyword that is missing, and every order violation,
  is thrown as an \<^verbatim>\<open>Error\<close> and reported by the \<^verbatim>\<open>catch\<close> clause with code \<open>SY03\<close>,
  although the reason text is the one of \<open>SY01\<close> and of \<open>SY02\<close>. The theorem evaluates
  the parser on an instruction without \<^verbatim>\<open>FROM\<close> and on one whose \<^verbatim>\<open>FOR\<close> comes before
  \<^verbatim>\<open>FROM\<close>.
\<close>

theorem parse_errors_reported_as_SY03:
  "parseInstruction ''DEBIT 100 USD'' =
     Inl \<lparr>statusCode = SY03, statusReason = ''Missing required keyword: FROM''\<rparr> \<and>
   parseInstruction ''DEBIT 100 USD FOR FROM ACCOUNT a CREDIT TO ACCOUNT b'' =
     Inl \<lparr>statusCode = SY03, statusReason = STATUS_CODES SY02\<rparr> \<and>
   parseInstruction ''SEND 100 USD TO ACCOUNT b'' =
     Inl \<lparr>statusCode = SY01, statusReason = ''Missing required keyword: DEBIT or CREDIT''\<rparr>"
  by code_simp

subsection \<open>Parsing an instruction of the grammar\<close>

text \<open>
  Claim C4. Every instruction of the supported grammar is parsed into a draft whose
  amount, currency, account identifiers and date are the constituents of the instruction.

  The code does not do this when a constituent contains the letters of a keyword that is
  searched after it: keywords are matched as substrings. In the instruction below the
  credit account is \<^verbatim>\<open>RON\<close>, the parser finds \<^verbatim>\<open>ON\<close> inside it, and the draft has the credit
  account \<^verbatim>\<open>R\<close> and an empty date. The same identifier in the first account position of the
  \<^verbatim>\<open>CREDIT\<close> form is read correctly.
\<close>

theorem keyword_inside_account_id_misparsed:
  "parseInstruction ''DEBIT 100 USD FROM ACCOUNT a FOR CREDIT TO ACCOUNT RON'' =
     Inr \<lparr>ptype = DEBIT, amount = ''100'', currency = ''USD'', debitAccount = ''a'',
          creditAccount = ''R'', executeBy = Some []\<rparr> \<and>
   parseInstruction ''CREDIT 100 USD TO ACCOUNT RON FOR DEBIT FROM ACCOUNT a'' =
     Inr \<lparr>ptype = CREDIT, amount = ''100'', currency = ''USD'', debitAccount = ''a'',
          creditAccount = ''RON'', executeBy = None\<rparr>"
  by code_simp

subsection \<open>Symmetry of the two surface forms\<close>

text \<open>
  Claim C5. The \<^verbatim>\<open>DEBIT\<close> form and the \<^verbatim>\<open>CREDIT\<close> form of the same transfer give the
  same debit account, credit account and outcome.

  The code does not do this for the transfer of 100 USD from \<^verbatim>\<open>a\<close> to \<^verbatim>\<open>RON\<close>: by the
  defect shown for claim C4 the \<^verbatim>\<open>DEBIT\<close> form reads the credit account as \<^verbatim>\<open>R\<close> and fails
  with \<open>AC03\<close>, while the \<^verbatim>\<open>CREDIT\<close> form executes the transfer.
\<close>

theorem surface_forms_disagree:
  "parties
     (paymentInstructionsService (referenceEngine 1793620800000)
        [\<lparr>acc_id = ''a'', acc_balance = Num 500, acc_currency = ''USD''\<rparr>,
         \<lparr>acc_id = ''RON'', acc_balance = Num 200, acc_currency = ''USD''\<rparr>]
        ''DEBIT 100 USD FROM ACCOUNT a FOR CREDIT TO ACCOUNT RON'') =
     Some (Some ''a'', Some ''R'') \<and>
   outcome
     (paymentInstructionsService (referenceEngine 1793620800000)
        [\<lparr>acc_id = ''a'', acc_balance = Num 500, acc_currency = ''USD''\<rparr>,
         \<lparr>acc_id = ''RON'', acc_balance = Num 200, acc_currency = ''USD''\<rparr>]
        ''DEBIT 100 USD FROM ACCOUNT a FOR CREDIT TO ACCOUNT RON'') =
     Some (Failed, AC03, [Num 500, Num 200]) \<and>
   parties
     (paymentInstructionsService (referenceEngine 1793620800000)
        [\<lparr>acc_id = ''a'', acc_balance = Num 500, acc_currency = ''USD''\<rparr>,
         \<lparr>acc_id = ''RON'', acc_balance = Num 200, acc_currency = ''USD''\<rparr>]
        ''CREDIT 100 USD TO ACCOUNT RON FOR DEBIT FROM ACCOUNT a'') =
     Some (Some ''a'', Some ''RON'') \<and>
   outcome
     (paymentInstructionsService (referenceEngine 1793620800000)
        [\<lparr>acc_id = ''a'', acc_balance = Num 500, acc_currency = ''USD''\<rparr>,
         \<lparr>acc_id = ''RON'', acc_balance = Num 200, acc_currency = ''USD''\<rparr>]
        ''CREDIT 100 USD TO ACCOUNT RON FOR DEBIT FROM ACCOUNT a'') =
     Some (Successful, AP00, [Num 400, Num 300])"
  by code_simp

subsection \<open>Order of the validation rules\<close>

lemma validateDate_code: "validateDate eng s = Inl f \<Longrightarrow> statusCode f = DT01"
  by (auto simp: validateDate_def dateFormatError_def Let_def split: if_splits option.splits)

text \<open>
  Claim C3. Validation returns the code of the first violated rule, the rules being taken in
  the order \<open>AM01\<close>, \<open>CU02\<close>, \<open>AC04\<close> (debit, then credit), \<open>AC02\<close>, \<open>AC03\<close> (debit, then
  credit), \<open>CU01\<close> (debit, then credit), \<open>AC01\<close>, \<open>DT01\<close> (only when a date was supplied),
  and returns success when no rule is violated.
\<close>

theorem validator_chain_order:
  "map_option statusCode (validateInstruction eng d accounts) =
     firstViolated (ruleChain eng d accounts)"
  by (auto simp: validateInstruction_def ruleChain_def firstViolated_def resolve_def Let_def
        isl_def validateDate_code
      split: option.splits sum.splits)

text \<open>A draft that violates three rules (the credit account has another currency, the
  debit account is short of funds, the date does not exist): the code returned is the one
  of the currency match, the first of the three in the order.\<close>

theorem validator_chain_order_witness:
  "map_option statusCode
     (validateInstruction (referenceEngine 1793620800000)
        \<lparr>ptype = DEBIT, amount = ''150'', currency = ''USD'', debitAccount = ''a'',
         creditAccount = ''b'', executeBy = Some ''2024-02-30''\<rparr>
        [\<lparr>acc_id = ''a'', acc_balance = Num 100, acc_currency = ''USD''\<rparr>,
         \<lparr>acc_id = ''b'', acc_balance = Num 500, acc_currency = ''GBP''\<rparr>]) = Some CU01"
proof -
  have "firstViolated
     (ruleChain (referenceEngine 1793620800000)
        \<lparr>ptype = DEBIT, amount = ''150'', currency = ''USD'', debitAccount = ''a'',
         creditAccount = ''b'', executeBy = Some ''2024-02-30''\<rparr>
        [\<lparr>acc_id = ''a'', acc_balance = Num 100, acc_currency = ''USD''\<rparr>,
         \<lparr>acc_id = ''b'', acc_balance = Num 500, acc_currency = ''GBP''\<rparr>]) = Some CU01"
    by code_simp
  then show ?thesis
    by (simp only: validator_chain_order)
qed

subsection \<open>The scheduler's branch for an invalid date\<close>

text \<open>
  Claim C8. In the full pipeline the branch of \<^verbatim>\<open>shouldExecuteImmediately\<close> that treats an
  invalid date as deferred is never taken: a request that reaches the scheduling decision
  (it was parsed, and validation found no error) has no date, or an empty one, or a date
  that \<^verbatim>\<open>validateDate\<close> accepts.
\<close>

theorem invalid_date_branch_unreachable:
  assumes "parseInstruction instruction = Inr parsed"
    and "validateInstruction eng parsed accounts = None"
  shows "scheduleBranch eng (executeBy parsed) \<noteq> InvalidDate \<and>
         (executeBy parsed = None \<or> executeBy parsed = Some [] \<or>
          (\<exists>date. validateDate eng (the (executeBy parsed)) = Inr date))"
  using assms(2)
  by (cases "executeBy parsed")
     (auto simp: validateInstruction_def scheduleBranch_def Let_def
           split: option.splits sum.splits if_splits)

theorem invalid_date_branch_unreachable_witness:
  "parseInstruction ''DEBIT 100 NGN FROM ACCOUNT x FOR CREDIT TO ACCOUNT y ON 2024-01-15'' =
     Inr \<lparr>ptype = DEBIT, amount = ''100'', currency = ''NGN'', debitAccount = ''x'',
          creditAccount = ''y'', executeBy = Some ''2024-01-15''\<rparr> \<and>
   validateInstruction (referenceEngine 1793620800000)
     \<lparr>ptype = DEBIT, amount = ''100'', currency = ''NGN'', debitAccount = ''x'',
      creditAccount = ''y'', executeBy = Some ''2024-01-15''\<rparr>
     [\<lparr>acc_id = ''x'', acc_balance = Num 500, acc_currency = ''NGN''\<rparr>,
      \<lparr>acc_id = ''y'', acc_balance = Num 200, acc_currency = ''NGN''\<rparr>] = None \<and>
   scheduleBranch (referenceEngine 1793620800000)
     (executeBy \<lparr>ptype = DEBIT, amount = ''100'', currency = ''NGN'', debitAccount = ''x'',
                 creditAccount = ''y'', executeBy = Some ''2024-01-15''\<rparr>) \<noteq> InvalidDate"
proof -
  let ?i = "''DEBIT 100 NGN FROM ACCOUNT x FOR CREDIT TO ACCOUNT y ON 2024-01-15''"
  let ?p = "\<lparr>ptype = DEBIT, amount = ''100'', currency = ''NGN'', debitAccount = ''x'',
             creditAccount = ''y'', executeBy = Some ''2024-01-15''\<rparr>"
  let ?a = "[\<lparr>acc_id = ''x'', acc_balance = Num 500, acc_currency = ''NGN''\<rparr>,
             \<lparr>acc_id = ''y'', acc_balance = Num 200, acc_currency = ''NGN''\<rparr>]"
  have p: "parseInstruction ?i = Inr ?p"
    by code_simp
  have v: "validateInstruction (referenceEngine 1793620800000) ?p ?a = None"
    by code_simp
  from invalid_date_branch_unreachable [OF p v]
  have "scheduleBranch (referenceEngine 1793620800000) (executeBy ?p) \<noteq> InvalidDate"
    by (rule conjunct1)
  with p v show ?thesis
    by (intro conjI)
qed

subsection \<open>The amount field of a validation failure\<close>

lemma truthyNum_iff: "truthyNum x \<longleftrightarrow> x \<noteq> NaN \<and> x \<noteq> Num 0"
  by (cases x) auto

text \<open>
  Claim C10. In the response to a validation failure the amount field is the integer
  prefix-parse of the raw amount (\<^verbatim>\<open>parseInt\<close>) when that is a number other than zero,
  and \<^verbatim>\<open>null\<close> when it is NaN or zero: \<^verbatim>\<open>-100\<close> is reported as \<open>-100\<close>, \<^verbatim>\<open>0\<close> and
  \<^verbatim>\<open>abc\<close> as \<^verbatim>\<open>null\<close>.
\<close>

theorem validation_failure_amount:
  assumes "parseInstruction instruction = Inr parsed"
    and "validateInstruction eng parsed accounts = Some validation"
  shows "\<exists>resp. paymentInstructionsService eng accounts instruction = Some (resp, accounts) \<and>
           p_status (data resp) = Failed \<and>
           p_amount (data resp) =
             (if parseInt (amount parsed) = NaN \<or> parseInt (amount parsed) = Num 0 then None
              else Some (parseInt (amount parsed)))"
  using assms
  by (auto simp: paymentInstructionsService_def amountOrNull_def truthyNum_iff)

theorem validation_failure_amount_witness:
  "map_option (\<lambda>r. p_amount (data (fst r)))
     (paymentInstructionsService (referenceEngine 1793620800000)
        [\<lparr>acc_id = ''a'', acc_balance = Num 500, acc_currency = ''USD''\<rparr>,
         \<lparr>acc_id = ''b'', acc_balance = Num 200, acc_currency = ''USD''\<rparr>]
        ''DEBIT -100 USD FROM ACCOUNT a FOR CREDIT TO ACCOUNT b'') = Some (Some (Num (- 100))) \<and>
   map_option (\<lambda>r. p_amount (data (fst r)))
     (paymentInstructionsService (referenceEngine 1793620800000)
        [\<lparr>acc_id = ''a'', acc_balance = Num 500, acc_currency = ''USD''\<rparr>,
         \<lparr>acc_id = ''b'', acc_balance = Num 200, acc_currency = ''USD''\<rparr>]
        ''DEBIT 0 USD FROM ACCOUNT a FOR CREDIT TO ACCOUNT b'') = Some None \<and>
   map_option (\<lambda>r. p_amount (data (fst r)))
     (paymentInstructionsService (referenceEngine 1793620800000)
        [\<lparr>acc_id = ''a'', acc_balance = Num 500, acc_currency = ''USD''\<rparr>,
         \<lparr>acc_id = ''b'', acc_balance = Num 200, acc_currency = ''USD''\<rparr>]
        ''DEBIT abc USD FROM ACCOUNT a FOR CREDIT TO ACCOUNT b'') = Some None"
proof -
  let ?e = "referenceEngine 1793620800000"
  let ?a = "[\<lparr>acc_id = ''a'', acc_balance = Num 500, acc_currency = ''USD''\<rparr>,
             \<lparr>acc_id = ''b'', acc_balance = Num 200, acc_currency = ''USD''\<rparr>]"
  let ?am = "\<lparr>statusCode = AM01, statusReason = STATUS_CODES AM01\<rparr>"
  let ?p = "\<lambda>raw. \<lparr>ptype = DEBIT, amount = raw, currency = ''USD'', debitAccount = ''a'',
                  creditAccount = ''b'', executeBy = None\<rparr>"
  have p1: "parseInstruction ''DEBIT -100 USD FROM ACCOUNT a FOR CREDIT TO ACCOUNT b'' =
      Inr (?p ''-100'')"
    by code_simp
  have p2: "parseInstruction ''DEBIT 0 USD FROM ACCOUNT a FOR CREDIT TO ACCOUNT b'' =
      Inr (?p ''0'')"
    by code_simp
  have p3: "parseInstruction ''DEBIT abc USD FROM ACCOUNT a FOR CREDIT TO ACCOUNT b'' =
      Inr (?p ''abc'')"
    by code_simp
  have v1: "validateInstruction ?e (?p ''-100'') ?a = Some ?am"
    by code_simp
  have v2: "validateInstruction ?e (?p ''0'') ?a = Some ?am"
    by code_simp
  have v3: "validateInstruction ?e (?p ''abc'') ?a = Some ?am"
    by code_simp
  have n1: "parseInt ''-100'' = Num (- 100)"
    by code_simp
  have n2: "parseInt ''0'' = Num 0"
    by code_simp
  have n3: "parseInt ''abc'' = NaN"
    by code_simp
  show ?thesis
    using validation_failure_amount [OF p1 v1] validation_failure_amount [OF p2 v2]
      validation_failure_amount [OF p3 v3]
    by (auto simp: n1 n2 n3)
qed

subsection \<open>An empty date\<close>

lemma findIndex_of_find:
  "List.find P xs = Some x \<Longrightarrow> \<exists>i. findIndex P xs = Some i \<and> i < length xs \<and> xs ! i = x"
  by (induction xs) (auto split: if_splits)



lemma validated_accounts_found:
  assumes "validateInstruction eng d accounts = None"
  shows "\<exists>i j. findIndex (\<lambda>acc. acc_id acc = debitAccount d) accounts = Some i \<and>
               findIndex (\<lambda>acc. acc_id acc = creditAccount d) accounts = Some j"
proof -
  from assms obtain a b where
    "List.find (\<lambda>acc. acc_id acc = debitAccount d) accounts = Some a"
    "List.find (\<lambda>acc. acc_id acc = creditAccount d) accounts = Some b"
    by (auto simp: validateInstruction_def Let_def split: option.splits if_splits)
  then show ?thesis
    by (meson findIndex_of_find)
qed

lemma service_executes:
  assumes "parseInstruction instruction = Inr parsed"
    and "validateInstruction eng parsed accounts = None"
    and "shouldExecuteImmediately eng (executeBy parsed)"
  shows "\<exists>resp accounts'.
           paymentInstructionsService eng accounts instruction = Some (resp, accounts') \<and>
           map_option snd (executeTransaction parsed accounts) = Some accounts' \<and>
           p_status (data resp) = Successful \<and> status_code (data resp) = AP00 \<and>
           execute_by (data resp) = executeBy parsed"
proof -
  from validated_accounts_found [OF assms(2)]
  obtain r where "executeTransaction parsed accounts = Some r"
    by (auto simp: executeTransaction_def Let_def)
  with assms show ?thesis
    by (cases r) (simp add: paymentInstructionsService_def)
qed






























subsection \<open>Conservation of money\<close>

lemma bitlen_pow53: "bitlen 9007199254740992 = 54"
  by code_simp

lemma round53_exact: "0 \<le> n \<Longrightarrow> n \<le> 2 ^ 53 \<Longrightarrow> round53 n = n"
  by (cases "n = 2 ^ 53") (simp_all add: round53_def Let_def bitlen_pow53)

lemma toNumber_exact: "\<bar>i\<bar> \<le> 2 ^ 53 \<Longrightarrow> toNumber i = Num i"
  by (auto simp: toNumber_def Let_def round53_exact)

lemma findIndex_Some:
  "findIndex P xs = Some i \<Longrightarrow> i < length xs \<and> P (xs ! i)"
  by (induction xs arbitrary: i) (auto split: if_splits)

lemma sum_list_update_int:
  fixes xs :: "int list"
  shows "k < length xs \<Longrightarrow> sum_list (xs[k := x]) = sum_list xs + x - xs ! k"
  by (induction xs arbitrary: k) (auto split: nat.splits)

lemma parseInt_Infinity: "parseInt ''Infinity'' = NaN"
  by code_simp

lemma accepted_amount:
  assumes "\<not> amountRejected raw"
  shows "\<exists>n. parseInt raw = Num n \<and> 0 < n"
proof (cases "parseInt raw")
  case PosInf
  with assms have "raw = ''Infinity''"
    by (auto simp: amountRejected_def Let_def split: if_splits)
  with PosInf parseInt_Infinity show ?thesis
    by simp
qed (use assms in \<open>auto simp: amountRejected_def Let_def split: if_splits\<close>)


lemma executeTransaction_result:
  assumes "findIndex (\<lambda>acc. acc_id acc = debitAccount p) accounts = Some d"
    and "findIndex (\<lambda>acc. acc_id acc = creditAccount p) accounts = Some c"
    and "d \<noteq> c"
  shows "map_option snd (executeTransaction p accounts) =
     Some (accounts
       [d := (accounts ! d)\<lparr>acc_balance := js_sub (acc_balance (accounts ! d)) (parseInt (amount p))\<rparr>,
        c := (accounts ! c)\<lparr>acc_balance := js_add (acc_balance (accounts ! c)) (parseInt (amount p))\<rparr>])"
  using assms by (simp add: executeTransaction_def Let_def)

lemma validated_transfer:
  assumes "validateInstruction eng p accounts = None"
  shows "\<exists>n d c. parseInt (amount p) = Num n \<and> 0 < n \<and>
           findIndex (\<lambda>acc. acc_id acc = debitAccount p) accounts = Some d \<and>
           findIndex (\<lambda>acc. acc_id acc = creditAccount p) accounts = Some c \<and> d \<noteq> c"
proof -
  from assms have "\<not> amountRejected (amount p)" and ne: "debitAccount p \<noteq> creditAccount p"
    by (auto simp: validateInstruction_def Let_def split: if_splits)
  then obtain n where n: "parseInt (amount p) = Num n" "0 < n"
    using accepted_amount by blast
  from validated_accounts_found [OF assms] obtain d c where
    dc: "findIndex (\<lambda>acc. acc_id acc = debitAccount p) accounts = Some d"
      "findIndex (\<lambda>acc. acc_id acc = creditAccount p) accounts = Some c"
    by blast
  from findIndex_Some [OF dc(1)] findIndex_Some [OF dc(2)] ne have "d \<noteq> c"
    by auto
  with n dc show ?thesis
    by blast
qed

lemma exact_transfer:
  assumes "d < length accounts" "c < length accounts" "d \<noteq> c"
    and "acc_balance (accounts ! d) = Num bd" "acc_balance (accounts ! c) = Num bc"
    and "\<bar>bd - n\<bar> \<le> 2 ^ 53" "\<bar>bc + n\<bar> \<le> 2 ^ 53"
    and "accounts' = accounts
       [d := (accounts ! d)\<lparr>acc_balance := js_sub (acc_balance (accounts ! d)) (Num n)\<rparr>,
        c := (accounts ! c)\<lparr>acc_balance := js_add (acc_balance (accounts ! c)) (Num n)\<rparr>]"
  shows "acc_balance (accounts' ! d) = Num (bd - n) \<and> acc_balance (accounts' ! c) = Num (bc + n) \<and>
         totalBalance accounts' = totalBalance accounts"
proof -
  have s: "toNumber (bd - n) = Num (bd - n)" and a: "toNumber (bc + n) = Num (bc + n)"
    using assms(6,7) by (simp_all add: toNumber_exact)
  let ?f = "\<lambda>acc. intOf (acc_balance acc)"
  have "map ?f accounts' = (map ?f accounts)[d := bd - n, c := bc + n]"
    by (simp add: assms(4,5,8) js_sub_def s a map_update)
  then have "totalBalance accounts' = sum_list ((map ?f accounts)[d := bd - n, c := bc + n])"
    by (simp add: totalBalance_def)
  also have "\<dots> = sum_list (map ?f accounts) + (bd - n) - bd + (bc + n) - bc"
    using assms(1-5) by (simp add: sum_list_update_int)
  finally have "totalBalance accounts' = totalBalance accounts"
    by (simp add: totalBalance_def)
  then show ?thesis
    using assms(1-3) by (simp add: assms(4,5,8) js_sub_def s a)
qed

text \<open>
  Claim C2. The sum of all balances is unchanged by a call, except that on a successful
  result the debit account's balance decreases by exactly the parsed amount and the credit
  account's balance increases by exactly the parsed amount; on a failed or pending result
  every balance is unchanged.

  As stated the claim fails: balances are doubles, and the sum \<open>2^53 + 1\<close> is rounded
  back to \<open>2^53\<close>, so a successful transfer of 1 to an account holding \<open>2^53\<close> leaves
  that balance unchanged (theorem \<open>conservation_counterexample\<close> below). The amended claim,
  proved here: every call returns; on a failed or pending result the account list is
  unchanged; on a successful result the first account carrying the debit identifier and the
  first one carrying the credit identifier are two different accounts, their balances
  become the rounded difference and the rounded sum, and nothing else changes; whenever the
  two balances are integers and the exact difference and sum have magnitude at most
  \<open>2^53\<close>, the new balances are exactly \<open>balance - amount\<close> and \<open>balance + amount\<close> and the
  sum of all balances is unchanged.
\<close>

theorem conservation:
  "\<exists>resp accounts'.
     paymentInstructionsService eng accounts instruction = Some (resp, accounts') \<and>
     (p_status (data resp) \<noteq> Successful \<longrightarrow> accounts' = accounts) \<and>
     (p_status (data resp) = Successful \<longrightarrow>
        (\<exists>parsed n d c.
           parseInstruction instruction = Inr parsed \<and>
           parseInt (amount parsed) = Num n \<and> 0 < n \<and>
           findIndex (\<lambda>acc. acc_id acc = debitAccount parsed) accounts = Some d \<and>
           findIndex (\<lambda>acc. acc_id acc = creditAccount parsed) accounts = Some c \<and>
           d \<noteq> c \<and>
           accounts' = accounts
             [d := (accounts ! d)
                \<lparr>acc_balance := js_sub (acc_balance (accounts ! d)) (Num n)\<rparr>,
              c := (accounts ! c)
                \<lparr>acc_balance := js_add (acc_balance (accounts ! c)) (Num n)\<rparr>] \<and>
           (\<forall>bd bc.
              acc_balance (accounts ! d) = Num bd \<and> acc_balance (accounts ! c) = Num bc \<and>
              \<bar>bd - n\<bar> \<le> 2 ^ 53 \<and> \<bar>bc + n\<bar> \<le> 2 ^ 53 \<longrightarrow>
              acc_balance (accounts' ! d) = Num (bd - n) \<and>
              acc_balance (accounts' ! c) = Num (bc + n) \<and>
              totalBalance accounts' = totalBalance accounts)))"
proof (cases "parseInstruction instruction")
  case (Inl failure)
  then show ?thesis
    by (simp add: paymentInstructionsService_def)
next
  case (Inr parsed)
  show ?thesis
  proof (cases "validateInstruction eng parsed accounts")
    case (Some validation)
    with Inr show ?thesis
      by (simp add: paymentInstructionsService_def)
  next
    case None
    show ?thesis
    proof (cases "shouldExecuteImmediately eng (executeBy parsed)")
      case False
      with Inr None show ?thesis
        by (simp add: paymentInstructionsService_def)
    next
      case True
      from validated_transfer [OF None] obtain n d c where
        n: "parseInt (amount parsed) = Num n" "0 < n" and
        d: "findIndex (\<lambda>acc. acc_id acc = debitAccount parsed) accounts = Some d" and
        c: "findIndex (\<lambda>acc. acc_id acc = creditAccount parsed) accounts = Some c" and
        dc: "d \<noteq> c"
        by blast
      let ?accounts' = "accounts
             [d := (accounts ! d)
                \<lparr>acc_balance := js_sub (acc_balance (accounts ! d)) (Num n)\<rparr>,
              c := (accounts ! c)
                \<lparr>acc_balance := js_add (acc_balance (accounts ! c)) (Num n)\<rparr>]"
      from service_executes [OF Inr None True] obtain resp accounts' where
        r: "paymentInstructionsService eng accounts instruction = Some (resp, accounts')"
          "map_option snd (executeTransaction parsed accounts) = Some accounts'"
          "p_status (data resp) = Successful"
        by blast
      from r(2) executeTransaction_result [OF d c dc] n(1) have a: "accounts' = ?accounts'"
        by simp
      have "\<forall>bd bc.
              acc_balance (accounts ! d) = Num bd \<and> acc_balance (accounts ! c) = Num bc \<and>
              \<bar>bd - n\<bar> \<le> 2 ^ 53 \<and> \<bar>bc + n\<bar> \<le> 2 ^ 53 \<longrightarrow>
              acc_balance (accounts' ! d) = Num (bd - n) \<and>
              acc_balance (accounts' ! c) = Num (bc + n) \<and>
              totalBalance accounts' = totalBalance accounts"
        using exact_transfer [OF _ _ dc _ _ _ _ a] findIndex_Some [OF d] findIndex_Some [OF c]
        by blast
      with r(1,3) Inr n d c dc a show ?thesis
        by blast
    qed
  qed
qed


theorem conservation_counterexample:
  "outcome
     (paymentInstructionsService (referenceEngine 1793620800000)
        [\<lparr>acc_id = ''a'', acc_balance = Num 9007199254740992, acc_currency = ''USD''\<rparr>,
         \<lparr>acc_id = ''b'', acc_balance = Num 9007199254740992, acc_currency = ''USD''\<rparr>]
        ''DEBIT 1 USD FROM ACCOUNT a FOR CREDIT TO ACCOUNT b'') =
     Some (Successful, AP00, [Num 9007199254740991, Num 9007199254740992])"
  by code_simp

theorem conservation_witness:
  "outcome
     (paymentInstructionsService (referenceEngine 1793620800000)
        [\<lparr>acc_id = ''N90394'', acc_balance = Num 1000, acc_currency = ''USD''\<rparr>,
         \<lparr>acc_id = ''N9122'', acc_balance = Num 500, acc_currency = ''USD''\<rparr>]
        ''DEBIT 500 USD FROM ACCOUNT N90394 FOR CREDIT TO ACCOUNT N9122'') =
     Some (Successful, AP00, [Num 500, Num 1000]) \<and>
   map_option (\<lambda>r. totalBalance (snd r))
     (paymentInstructionsService (referenceEngine 1793620800000)
        [\<lparr>acc_id = ''N90394'', acc_balance = Num 1000, acc_currency = ''USD''\<rparr>,
         \<lparr>acc_id = ''N9122'', acc_balance = Num 500, acc_currency = ''USD''\<rparr>]
        ''DEBIT 500 USD FROM ACCOUNT N90394 FOR CREDIT TO ACCOUNT N9122'') =
     Some (totalBalance
        [\<lparr>acc_id = ''N90394'', acc_balance = Num 1000, acc_currency = ''USD''\<rparr>,
         \<lparr>acc_id = ''N9122'', acc_balance = Num 500, acc_currency = ''USD''\<rparr>])"
proof -
  let ?e = "referenceEngine 1793620800000"
  let ?a = "[\<lparr>acc_id = ''N90394'', acc_balance = Num 1000, acc_currency = ''USD''\<rparr>,
             \<lparr>acc_id = ''N9122'', acc_balance = Num 500, acc_currency = ''USD''\<rparr>]"
  let ?i = "''DEBIT 500 USD FROM ACCOUNT N90394 FOR CREDIT TO ACCOUNT N9122''"
  let ?p = "\<lparr>ptype = DEBIT, amount = ''500'', currency = ''USD'', debitAccount = ''N90394'',
             creditAccount = ''N9122'', executeBy = None\<rparr>"
  have o: "outcome (paymentInstructionsService ?e ?a ?i) =
      Some (Successful, AP00, [Num 500, Num 1000])"
    by code_simp
  have p: "parseInstruction ?i = Inr ?p"
    by code_simp
  have n: "parseInt (amount ?p) = Num 500"
    by code_simp
  have d: "findIndex (\<lambda>acc. acc_id acc = debitAccount ?p) ?a = Some 0"
    by code_simp
  have c: "findIndex (\<lambda>acc. acc_id acc = creditAccount ?p) ?a = Some 1"
    by code_simp
  from conservation [of ?e ?a ?i] obtain resp accounts' where
    r: "paymentInstructionsService ?e ?a ?i = Some (resp, accounts')" and
    s: "p_status (data resp) = Successful \<longrightarrow>
        (\<exists>parsed n d c.
           parseInstruction ?i = Inr parsed \<and>
           parseInt (amount parsed) = Num n \<and> 0 < n \<and>
           findIndex (\<lambda>acc. acc_id acc = debitAccount parsed) ?a = Some d \<and>
           findIndex (\<lambda>acc. acc_id acc = creditAccount parsed) ?a = Some c \<and>
           d \<noteq> c \<and>
           accounts' = ?a
             [d := (?a ! d)\<lparr>acc_balance := js_sub (acc_balance (?a ! d)) (Num n)\<rparr>,
              c := (?a ! c)\<lparr>acc_balance := js_add (acc_balance (?a ! c)) (Num n)\<rparr>] \<and>
           (\<forall>bd bc.
              acc_balance (?a ! d) = Num bd \<and> acc_balance (?a ! c) = Num bc \<and>
              \<bar>bd - n\<bar> \<le> 2 ^ 53 \<and> \<bar>bc + n\<bar> \<le> 2 ^ 53 \<longrightarrow>
              acc_balance (accounts' ! d) = Num (bd - n) \<and>
              acc_balance (accounts' ! c) = Num (bc + n) \<and>
              totalBalance accounts' = totalBalance ?a))"
    by blast
  from o r have "p_status (data resp) = Successful"
    by (simp add: outcome_def)
  with s p n d c have "\<forall>bd bc.
      acc_balance (?a ! 0) = Num bd \<and> acc_balance (?a ! 1) = Num bc \<and>
      \<bar>bd - 500\<bar> \<le> 2 ^ 53 \<and> \<bar>bc + 500\<bar> \<le> 2 ^ 53 \<longrightarrow>
      totalBalance accounts' = totalBalance ?a"
    by auto
  then have "totalBalance accounts' = totalBalance ?a"
    by simp
  with r o show ?thesis
    by simp
qed

subsection \<open>Which occurrence a keyword is bound to\<close>

lemma occursAt_nth:
  assumes "occursAt s k p" "i < length k"
  shows "p + i < length s \<and> s ! (p + i) = k ! i"
proof -
  from assms(1) have t: "take (length k) (drop p s) = k"
    by (simp add: occursAt_def)
  then have "length (take (length k) (drop p s)) = length k"
    by simp
  with assms(2) have b: "p + i < length s"
    by simp
  from t have "k ! i = take (length k) (drop p s) ! i"
    by simp
  also have "\<dots> = s ! (p + i)"
    using assms(2) b by simp
  finally show ?thesis
    using b by simp
qed

lemma search_Some:
  "search k s = Some i \<Longrightarrow> occursAt s k i \<and> i \<le> length s \<and> (\<forall>j<i. \<not> occursAt s k j)"
proof (induction s arbitrary: i)
  case Nil
  then show ?case
    by (simp add: occursAt_def split: if_splits)
next
  case (Cons c cs)
  show ?case
  proof (cases "take (length k) (c # cs) = k")
    case True
    with Cons.prems show ?thesis
      by (simp add: occursAt_def)
  next
    case False
    with Cons.prems obtain i' where i': "search k cs = Some i'" "i = Suc i'"
      by auto
    from Cons.IH [OF i'(1)] False i'(2) show ?thesis
      by (auto simp: occursAt_def less_Suc_eq_0_disj)
  qed
qed

lemma search_None: "search k s = None \<Longrightarrow> j \<le> length s \<Longrightarrow> \<not> occursAt s k j"
proof (induction s arbitrary: j)
  case Nil
  then show ?case
    by (simp add: occursAt_def split: if_splits)
next
  case (Cons c cs)
  then show ?case
    by (cases j) (auto simp: occursAt_def split: if_splits)
qed

lemma occursAt_drop: "occursAt (drop a s) k j = occursAt s k (a + j)"
  by (simp add: occursAt_def add.commute)

lemma indexOf_range: "indexOf s k a = - 1 \<or> 0 \<le> indexOf s k a"
  by (simp add: indexOf_def Let_def split: option.splits)

lemma indexOf_found:
  assumes "indexOf s k a = p" "0 \<le> p" "k \<noteq> []"
  shows "occursAt s k (nat p) \<and> a \<le> p \<and> nat p \<le> length s \<and>
         (\<forall>j. nat a \<le> j \<and> j < nat p \<longrightarrow> \<not> occursAt s k j)"
proof -
  let ?start = "min (nat a) (length s)"
  from assms(1,2) obtain i where i: "search k (drop ?start s) = Some i" "p = int (?start + i)"
    by (auto simp: indexOf_def Let_def split: option.splits)
  have st: "?start = nat a"
  proof (rule ccontr)
    assume "?start \<noteq> nat a"
    then have "drop ?start s = []"
      by simp
    with i(1) assms(3) show False
      by simp
  qed
  from i(2) have np: "nat p = ?start + i"
    by simp
  from search_Some [OF i(1)] have
    o: "occursAt s k (?start + i)" and l: "i \<le> length s - ?start" and
    m: "\<forall>j<i. \<not> occursAt s k (?start + j)"
    by (simp_all add: occursAt_drop)
  have "\<not> occursAt s k j" if "nat a \<le> j" "j < nat p" for j
  proof -
    from that np st have "j - ?start < i" "?start + (j - ?start) = j"
      by auto
    with m show ?thesis
      by metis
  qed
  moreover have "a \<le> p"
    using i(2) st by linarith
  moreover have "nat p \<le> length s"
    using np l by simp
  ultimately show ?thesis
    using o np by simp
qed

lemma indexOf_nat:
  "indexOf s k (int a) =
     (case search k (drop (min a (length s)) s) of
        None \<Rightarrow> - 1 | Some i \<Rightarrow> int (min a (length s) + i))"
  by (simp add: indexOf_def Let_def)

lemma indexOf_step:
  assumes "\<not> occursAt s k a"
  shows "indexOf s k (int a) = indexOf s k (int (Suc a))"
proof (cases "a < length s")
  case True
  then have d: "drop a s = s ! a # drop (Suc a) s"
    by (simp add: Cons_nth_drop_Suc)
  from assms have "take (length k) (s ! a # drop (Suc a) s) \<noteq> k"
    by (simp add: occursAt_def d)
  then have "search k (drop a s) = map_option Suc (search k (drop (Suc a) s))"
    by (simp add: d)
  moreover from True have "min a (length s) = a" "min (Suc a) (length s) = Suc a"
    by simp_all
  ultimately show ?thesis
    unfolding indexOf_nat by (simp split: option.splits)
next
  case False
  then have "min a (length s) = length s" "min (Suc a) (length s) = length s"
    by simp_all
  then show ?thesis
    unfolding indexOf_nat by simp
qed

lemma indexOf_skip:
  assumes "\<forall>j. a \<le> j \<and> j < a + n \<longrightarrow> \<not> occursAt s k j"
  shows "indexOf s k (int a) = indexOf s k (int (a + n))"
  using assms
proof (induction n)
  case 0
  then show ?case by simp
next
  case (Suc n)
  then have "indexOf s k (int a) = indexOf s k (int (a + n))"
    by simp
  also have "\<dots> = indexOf s k (int (Suc (a + n)))"
    by (rule indexOf_step) (use Suc.prems in simp)
  finally show ?case
    by simp
qed

lemma indexOf_negative: "a \<le> 0 \<Longrightarrow> indexOf s k a = indexOf s k 0"
  by (simp add: indexOf_def)

text \<open>A search that starts later, but not after the occurrence found, finds the same
  occurrence.\<close>

lemma indexOf_rebind:
  assumes "indexOf s k a = p" "0 \<le> p" "k \<noteq> []" "a \<le> b" "b \<le> p"
  shows "indexOf s k b = p"
proof -
  from indexOf_found [OF assms(1-3)] have
    m: "\<forall>j. nat a \<le> j \<and> j < nat p \<longrightarrow> \<not> occursAt s k j"
    by simp
  have "indexOf s k (int (nat x)) = indexOf s k p" if "a \<le> x" "x \<le> p" for x
  proof -
    from that assms(2) have e: "nat p = nat x + (nat p - nat x)"
      by simp
    from that m have "\<forall>j. nat x \<le> j \<and> j < nat x + (nat p - nat x) \<longrightarrow> \<not> occursAt s k j"
      by auto
    from indexOf_skip [OF this] e assms(2) show ?thesis
      by simp
  qed
  from this [of a] this [of b] assms have "indexOf s k (int (nat a)) = indexOf s k (int (nat b))"
    by simp
  moreover have "indexOf s k (int (nat x)) = indexOf s k x" for x
    by (simp add: indexOf_def)
  ultimately show ?thesis
    using assms(1) by simp
qed

lemma indexOf_rebind_none:
  assumes "indexOf s k a = - 1" "a \<le> b"
  shows "indexOf s k b = - 1"
proof (rule ccontr)
  assume n: "indexOf s k b \<noteq> - 1"
  define sa where "sa = min (nat a) (length s)"
  define sb where "sb = min (nat b) (length s)"
  from assms(2) have "nat a \<le> nat b"
    by simp
  then have le: "sa \<le> sb" "sb \<le> length s"
    by (simp_all add: sa_def sb_def min.coboundedI1)
  from n obtain i where i: "search k (drop sb s) = Some i"
    by (auto simp: indexOf_def Let_def sb_def split: option.splits)
  from search_Some [OF i] have o: "occursAt s k (sb + i)" "i \<le> length s - sb"
    by (simp_all add: occursAt_drop)
  from assms(1) have "search k (drop sa s) = None"
    by (auto simp: indexOf_def Let_def sa_def split: option.splits)
  moreover have "sb + i - sa \<le> length (drop sa s)"
    using le o(2) by simp
  ultimately have "\<not> occursAt (drop sa s) k (sb + i - sa)"
    by (rule search_None)
  moreover have "sa + (sb + i - sa) = sb + i"
    using le by simp
  ultimately show False
    using o(1) by (simp add: occursAt_drop)
qed


lemma overlapFreeD:
  assumes "overlapFree k1 k2 n" "d < n"
  shows "\<exists>i<length k2. d + i < length k1 \<and> k1 ! (d + i) \<noteq> k2 ! i"
proof -
  from assms have "\<exists>i\<in>{0..<length k2}. d + i < length k1 \<and> k1 ! (d + i) \<noteq> k2 ! i"
    by (simp add: overlapFree_def list_all_iff list_ex_iff)
  then show ?thesis
    by auto
qed

lemma occurrences_apart:
  assumes "occursAt s k1 f" "occursAt s k2 p" "f \<le> p" "overlapFree k1 k2 n"
  shows "f + n \<le> p"
proof (rule ccontr)
  assume "\<not> f + n \<le> p"
  with assms(3) have "p - f < n" "f + (p - f) = p"
    by simp_all
  from overlapFreeD [OF assms(4) this(1)] obtain i where
    i: "i < length k2" "p - f + i < length k1" "k1 ! (p - f + i) \<noteq> k2 ! i"
    by blast
  from occursAt_nth [OF assms(1) i(2)] occursAt_nth [OF assms(2) i(1)] assms(3) i(3)
  show False
    by (simp add: add.assoc [symmetric])
qed

text \<open>The occurrence of \<open>k2\<close> found from an offset \<open>a\<close> that is not after the occurrence
  \<open>f\<close> of the preceding keyword \<open>k1\<close> is the first one at or after \<open>f + n\<close>, provided it is
  not before \<open>f\<close>.\<close>

lemma bound_after:
  assumes "indexOf s k1 a1 = f" "0 \<le> f" "k1 \<noteq> []" "k2 \<noteq> []"
    and "indexOf s k2 a = p" "a \<le> f" "p = - 1 \<or> f \<le> p" "overlapFree k1 k2 n"
  shows "indexOf s k2 (f + int n) = p"
proof (cases "p = - 1")
  case True
  with assms(5) have "indexOf s k2 a = - 1"
    by simp
  moreover from assms(6) have "a \<le> f + int n"
    by simp
  ultimately have "indexOf s k2 (f + int n) = - 1"
    by (rule indexOf_rebind_none)
  with True show ?thesis
    by simp
next
  case False
  with assms(2,7) have p: "0 \<le> p" "f \<le> p"
    by simp_all
  from indexOf_found [OF assms(1-3)] indexOf_found [OF assms(5) p(1) assms(4)]
  have "occursAt s k1 (nat f)" "occursAt s k2 (nat p)"
    by simp_all
  moreover from p assms(2) have "nat f \<le> nat p"
    by simp
  ultimately have "nat f + n \<le> nat p"
    using assms(8) by (rule occurrences_apart)
  then have "int (nat f + n) \<le> int (nat p)"
    by (simp only: of_nat_le_iff)
  with p assms(2) have "f + int n \<le> p"
    by simp
  moreover from assms(6) have "a \<le> f + int n"
    by simp
  ultimately show ?thesis
    using assms(5) p(1) assms(4) indexOf_rebind [of s k2 a p "f + int n"] by blast
qed

lemma keyword_overlaps:
  "overlapFree ''DEBIT'' ''FROM'' 5" "overlapFree ''FROM'' ''ACCOUNT'' 4"
  "overlapFree ''ACCOUNT'' ''FOR'' 7" "overlapFree ''FOR'' ''CREDIT'' 3"
  "overlapFree ''CREDIT'' ''TO'' 5" "overlapFree ''TO'' ''ACCOUNT'' 2"
  "overlapFree ''ACCOUNT'' ''ON'' 7" "overlapFree ''FOR'' ''DEBIT'' 3"
  by code_simp+

lemma debit_binding:
  assumes "debitPos (debitPositions upper) \<noteq> - 1" "debitOrder (debitPositions upper)"
  shows "debitBinding 5 upper (debitPositions upper)"
proof -
  define dp where "dp = indexOf upper ''DEBIT'' 0"
  define fp where "fp = indexOf upper ''FROM'' 0"
  define a1 where "a1 = indexOf upper ''ACCOUNT'' fp"
  define fo where "fo = indexOf upper ''FOR'' 0"
  define cp where "cp = indexOf upper ''CREDIT'' fo"
  define tp where "tp = indexOf upper ''TO'' cp"
  define a2 where "a2 = indexOf upper ''ACCOUNT'' tp"
  define on where "on = indexOf upper ''ON'' a2"
  note defs = dp_def fp_def a1_def fo_def cp_def tp_def a2_def on_def
  have P: "debitPositions upper =
      \<lparr>debitPos = dp, fromPos = fp, creditPos = cp, toPos = tp, accountPos1 = a1,
       forPos = fo, accountPos2 = a2, onPos = on\<rparr>"
    by (simp add: debitPositions_def Let_def defs)
  from assms indexOf_range [of upper "''DEBIT''" 0] have
    o: "0 \<le> dp" "dp < fp" "fp < a1" "a1 < fo" "fo < cp" "cp < tp" "tp < a2"
    by (auto simp: P debitOrder_def dp_def)
  have "fp = indexOf upper ''FROM'' (dp + int 5)"
    by (rule bound_after [OF dp_def [symmetric] _ _ _ fp_def [symmetric], symmetric])
      (use o in \<open>simp_all add: keyword_overlaps\<close>)
  moreover have "a1 = indexOf upper ''ACCOUNT'' (fp + int 4)"
    by (rule bound_after [OF fp_def [symmetric] _ _ _ a1_def [symmetric], symmetric])
      (use o in \<open>simp_all add: keyword_overlaps\<close>)
  moreover have "fo = indexOf upper ''FOR'' (a1 + int 7)"
    by (rule bound_after [OF a1_def [symmetric] _ _ _ fo_def [symmetric], symmetric])
      (use o in \<open>simp_all add: keyword_overlaps\<close>)
  moreover have "cp = indexOf upper ''CREDIT'' (fo + int 3)"
    by (rule bound_after [OF fo_def [symmetric] _ _ _ cp_def [symmetric], symmetric])
      (use o in \<open>simp_all add: keyword_overlaps\<close>)
  moreover have "tp = indexOf upper ''TO'' (cp + int 5)"
    by (rule bound_after [OF cp_def [symmetric] _ _ _ tp_def [symmetric], symmetric])
      (use o in \<open>simp_all add: keyword_overlaps\<close>)
  moreover have "a2 = indexOf upper ''ACCOUNT'' (tp + int 2)"
    by (rule bound_after [OF tp_def [symmetric] _ _ _ a2_def [symmetric], symmetric])
      (use o in \<open>simp_all add: keyword_overlaps\<close>)
  moreover have "on = indexOf upper ''ON'' (a2 + int 7)"
  proof -
    have q: "on = - 1 \<or> a2 \<le> on"
    proof (cases "0 \<le> on")
      case True
      from indexOf_found [OF on_def [symmetric] True] show ?thesis
        by simp
    next
      case False
      with indexOf_range [of upper "''ON''" a2] show ?thesis
        by (simp add: on_def)
    qed
    show ?thesis
      by (rule bound_after [OF a2_def [symmetric] _ _ _ on_def [symmetric], symmetric])
        (use o q in \<open>simp_all add: keyword_overlaps\<close>)
  qed
  ultimately show ?thesis
    by (simp add: debitBinding_def P)
qed

lemma credit_binding:
  assumes "creditPos (creditPositions upper) \<noteq> - 1" "creditOrder (creditPositions upper)"
  shows "creditBinding 5 upper (creditPositions upper)"
proof -
  define cp where "cp = indexOf upper ''CREDIT'' 0"
  define tp where "tp = indexOf upper ''TO'' 0"
  define a1 where "a1 = indexOf upper ''ACCOUNT'' tp"
  define fo where "fo = indexOf upper ''FOR'' 0"
  define dp where "dp = indexOf upper ''DEBIT'' fo"
  define fp where "fp = indexOf upper ''FROM'' dp"
  define a2 where "a2 = indexOf upper ''ACCOUNT'' fp"
  define on where "on = indexOf upper ''ON'' a2"
  note defs = cp_def tp_def a1_def fo_def dp_def fp_def a2_def on_def
  have P: "creditPositions upper =
      \<lparr>debitPos = dp, fromPos = fp, creditPos = cp, toPos = tp, accountPos1 = a1,
       forPos = fo, accountPos2 = a2, onPos = on\<rparr>"
    by (simp add: creditPositions_def Let_def defs)
  from assms indexOf_range [of upper "''CREDIT''" 0] have
    o: "0 \<le> cp" "cp < tp" "tp < a1" "a1 < fo" "fo < dp" "dp < fp" "fp < a2"
    by (auto simp: P creditOrder_def cp_def)
  have "tp = indexOf upper ''TO'' (cp + int 5)"
    by (rule bound_after [OF cp_def [symmetric] _ _ _ tp_def [symmetric], symmetric])
      (use o in \<open>simp_all add: keyword_overlaps\<close>)
  moreover have "a1 = indexOf upper ''ACCOUNT'' (tp + int 2)"
    by (rule bound_after [OF tp_def [symmetric] _ _ _ a1_def [symmetric], symmetric])
      (use o in \<open>simp_all add: keyword_overlaps\<close>)
  moreover have "fo = indexOf upper ''FOR'' (a1 + int 7)"
    by (rule bound_after [OF a1_def [symmetric] _ _ _ fo_def [symmetric], symmetric])
      (use o in \<open>simp_all add: keyword_overlaps\<close>)
  moreover have "dp = indexOf upper ''DEBIT'' (fo + int 3)"
    by (rule bound_after [OF fo_def [symmetric] _ _ _ dp_def [symmetric], symmetric])
      (use o in \<open>simp_all add: keyword_overlaps\<close>)
  moreover have "fp = indexOf upper ''FROM'' (dp + int 5)"
    by (rule bound_after [OF dp_def [symmetric] _ _ _ fp_def [symmetric], symmetric])
      (use o in \<open>simp_all add: keyword_overlaps\<close>)
  moreover have "a2 = indexOf upper ''ACCOUNT'' (fp + int 4)"
    by (rule bound_after [OF fp_def [symmetric] _ _ _ a2_def [symmetric], symmetric])
      (use o in \<open>simp_all add: keyword_overlaps\<close>)
  moreover have "on = indexOf upper ''ON'' (a2 + int 7)"
  proof -
    have q: "on = - 1 \<or> a2 \<le> on"
    proof (cases "0 \<le> on")
      case True
      from indexOf_found [OF on_def [symmetric] True] show ?thesis
        by simp
    next
      case False
      with indexOf_range [of upper "''ON''" a2] show ?thesis
        by (simp add: on_def)
    qed
    show ?thesis
      by (rule bound_after [OF a2_def [symmetric] _ _ _ on_def [symmetric], symmetric])
        (use o q in \<open>simp_all add: keyword_overlaps\<close>)
  qed
  ultimately show ?thesis
    by (simp add: creditBinding_def P)
qed

text \<open>
  Claim C6. Every search for a keyword of the fixed sequence begins immediately after the
  previously found keyword, so that for every input each keyword (the two \<^verbatim>\<open>ACCOUNT\<close>s
  included) is bound to its first occurrence at or after the end of the preceding keyword's
  occurrence.

  As stated the claim fails. \<^verbatim>\<open>FROM\<close> and \<^verbatim>\<open>FOR\<close> (in the \<^verbatim>\<open>CREDIT\<close> form \<^verbatim>\<open>TO\<close> and
  \<^verbatim>\<open>FOR\<close>) are searched from the start of the instruction, and every other keyword from
  the start, not the end, of the keyword found before it. So a \<^verbatim>\<open>FOR\<close> in front of
  \<^verbatim>\<open>FROM\<close> is the one that is bound, and in \<^verbatim>\<open>CREDITO\<close> the keyword \<^verbatim>\<open>TO\<close> is bound to an
  occurrence that overlaps \<^verbatim>\<open>CREDIT\<close> (theorem \<open>keyword_binding_counterexample\<close> below).
  The amended claim, proved here for both forms: whenever the first keyword is found and
  the positions pass the order test of the parser, every keyword is bound to its first
  occurrence at or after the end of the preceding keyword's occurrence, except that
  \<^verbatim>\<open>TO\<close> is bound to the first occurrence at or after the last letter of \<^verbatim>\<open>CREDIT\<close>.
\<close>

theorem keyword_binding:
  "(debitPos (debitPositions upper) \<noteq> - 1 \<and> debitOrder (debitPositions upper) \<longrightarrow>
      debitBinding 5 upper (debitPositions upper)) \<and>
   (creditPos (creditPositions upper) \<noteq> - 1 \<and> creditOrder (creditPositions upper) \<longrightarrow>
      creditBinding 5 upper (creditPositions upper))"
  using debit_binding credit_binding by blast

theorem keyword_binding_counterexample:
  "forPos (debitPositions ''DEBIT 1 FOR FROM ACCOUNT A FOR CREDIT TO ACCOUNT B'') = 8 \<and>
   accountPos1 (debitPositions ''DEBIT 1 FOR FROM ACCOUNT A FOR CREDIT TO ACCOUNT B'') = 17 \<and>
   indexOf ''DEBIT 1 FOR FROM ACCOUNT A FOR CREDIT TO ACCOUNT B'' ''FOR'' (17 + 7) = 27 \<and>
   \<not> debitBinding 6 ''DEBIT 1 FOR FROM ACCOUNT A FOR CREDIT TO ACCOUNT B''
       (debitPositions ''DEBIT 1 FOR FROM ACCOUNT A FOR CREDIT TO ACCOUNT B'') \<and>
   parseInstruction ''DEBIT 1 USD FROM ACCOUNT a FOR CREDITO ACCOUNT b'' =
     Inr \<lparr>ptype = DEBIT, amount = ''1'', currency = ''USD'', debitAccount = ''a'',
          creditAccount = ''b'', executeBy = None\<rparr> \<and>
   creditPos (debitPositions ''DEBIT 1 USD FROM ACCOUNT A FOR CREDITO ACCOUNT B'') = 31 \<and>
   toPos (debitPositions ''DEBIT 1 USD FROM ACCOUNT A FOR CREDITO ACCOUNT B'') = 36 \<and>
   indexOf ''DEBIT 1 USD FROM ACCOUNT A FOR CREDITO ACCOUNT B'' ''TO'' (31 + 6) = - 1"
  by code_simp

theorem keyword_binding_witness:
  "debitPos (debitPositions ''DEBIT 1 USD FROM ACCOUNT A FOR CREDITO ACCOUNT B ON 2026-12-31'') \<noteq> - 1 \<and>
   debitOrder (debitPositions ''DEBIT 1 USD FROM ACCOUNT A FOR CREDITO ACCOUNT B ON 2026-12-31'') \<and>
   debitBinding 5 ''DEBIT 1 USD FROM ACCOUNT A FOR CREDITO ACCOUNT B ON 2026-12-31''
     (debitPositions ''DEBIT 1 USD FROM ACCOUNT A FOR CREDITO ACCOUNT B ON 2026-12-31'') \<and>
   creditPos (creditPositions ''CREDIT 300 NGN TO ACCOUNT ACC-002 FOR DEBIT FROM ACCOUNT ACC-001'') \<noteq> - 1 \<and>
   creditOrder (creditPositions ''CREDIT 300 NGN TO ACCOUNT ACC-002 FOR DEBIT FROM ACCOUNT ACC-001'') \<and>
   creditBinding 5 ''CREDIT 300 NGN TO ACCOUNT ACC-002 FOR DEBIT FROM ACCOUNT ACC-001''
     (creditPositions ''CREDIT 300 NGN TO ACCOUNT ACC-002 FOR DEBIT FROM ACCOUNT ACC-001'')"
proof -
  let ?d = "''DEBIT 1 USD FROM ACCOUNT A FOR CREDITO ACCOUNT B ON 2026-12-31''"
  let ?c = "''CREDIT 300 NGN TO ACCOUNT ACC-002 FOR DEBIT FROM ACCOUNT ACC-001''"
  have d: "debitPos (debitPositions ?d) \<noteq> - 1" "debitOrder (debitPositions ?d)"
    by code_simp+
  have c: "creditPos (creditPositions ?c) \<noteq> - 1" "creditOrder (creditPositions ?c)"
    by code_simp+
  from keyword_binding [of ?d] keyword_binding [of ?c] d c show ?thesis
    by blast
qed

subsection \<open>The amount rule\<close>

lemma digit_range: "0 \<le> d \<Longrightarrow> d < 10 \<Longrightarrow> d \<in> {0, 1, 2, 3, 4, 5, 6, 7, 8, 9 :: int}"
  by (simp, arith)

lemma div10_less: "(n::int) < 10 * m \<Longrightarrow> n div 10 < m"
  by presburger

lemma digitChar_props:
  assumes "0 \<le> d" "d < 10"
  shows "isDigit (digitChar d)" "digitVal (digitChar d) = d"
    "(digitChar d = CHR ''0'') = (d = 0)"
  using digit_range [OF assms]
  by (auto simp: digitChar_def isDigit_def digitVal_def)

lemma isDigit_props:
  assumes "isDigit c"
  shows "\<not> isWhiteSpace c" "c \<noteq> CHR ''+''" "c \<noteq> CHR ''-''" "c \<noteq> CHR ''.''" "c \<noteq> CHR ''e''"
    "0 \<le> digitVal c" "digitVal c < 10"
  using assms by (auto simp: isDigit_def isWhiteSpace_def digitVal_def Let_def)

lemma digitsValue_snoc: "digitsValue (z @ [c]) = 10 * digitsValue z + digitVal c"
  by (simp add: digitsValue_def)

lemma digits10_props:
  assumes "0 \<le> n"
  shows "digits10 n \<noteq> [] \<and> list_all isDigit (digits10 n) \<and> digitsValue (digits10 n) = n \<and>
         (hd (digits10 n) = CHR ''0'') = (n = 0)"
  using assms
proof (induction n rule: digits10.induct)
  case (1 n)
  show ?case
  proof (cases "n < 10")
    case True
    with "1.prems" digitChar_props [of n] show ?thesis
      by (simp add: digitsValue_def digits10.simps [of n])
  next
    case False
    with "1.prems" have q: "0 \<le> n div 10" "n div 10 \<noteq> 0" and r: "0 \<le> n mod 10" "n mod 10 < 10"
      by simp_all
    from "1.IH" [OF False q(1)] q(2) False digitChar_props [OF r] show ?thesis
      by (simp add: digitsValue_snoc digits10.simps [of n] list_all_iff)
  qed
qed

lemma digits10_length:
  "0 \<le> n \<Longrightarrow> n < 10 ^ k \<Longrightarrow> 0 < k \<Longrightarrow> length (digits10 n) \<le> k"
proof (induction n arbitrary: k rule: digits10.induct)
  case (1 n)
  show ?case
  proof (cases "n < 10")
    case True
    with "1.prems" show ?thesis
      by (simp add: digits10.simps [of n])
  next
    case False
    with "1.prems" obtain k' where k: "k = Suc k'" "0 < k'"
      by (cases k; cases "k - 1") auto
    with "1.prems" have "n div 10 < 10 ^ k'"
      by (simp add: div10_less)
    with "1.IH" [OF False _ this k(2)] "1.prems" False k show ?thesis
      by (simp add: digits10.simps [of n])
  qed
qed


lemma half_le: "x \<le> n div 2 \<Longrightarrow> 2 * x \<le> (n::int)"
  by presburger

lemma half_less: "n div 2 < y \<Longrightarrow> (n::int) < 2 * y"
  by presburger

lemma bitlen_bounds: "0 < n \<Longrightarrow> 2 ^ (bitlen n - 1) \<le> n \<and> n < 2 ^ bitlen n"
proof (induction n rule: bitlen.induct)
  case (1 n)
  show ?case
  proof (cases "n div 2 = 0")
    case True
    with "1.prems" have "n = 1"
      by presburger
    then show ?thesis
      by (simp add: bitlen.simps [of 1] bitlen.simps [of 0])
  next
    case False
    with "1.prems" have p: "0 < n div 2" "\<not> n \<le> 0"
      by simp_all
    from "1.IH" [OF p(2) p(1)] have
      b: "2 ^ (bitlen (n div 2) - 1) \<le> n div 2" "n div 2 < 2 ^ bitlen (n div 2)"
      by simp_all
    from p have s: "bitlen n = Suc (bitlen (n div 2))" "0 < bitlen (n div 2)"
      by (simp_all add: bitlen.simps [of n] bitlen.simps [of "n div 2"])
    then obtain m where m: "bitlen (n div 2) = Suc m"
      by (cases "bitlen (n div 2)") simp_all
    from half_le [OF b(1)] half_less [OF b(2)] show ?thesis
      by (simp add: s(1) m)
  qed
qed

lemma round53_small: "n < 2 ^ 53 \<Longrightarrow> round53 n = n"
  by (simp add: round53_def)

lemma round53_choice:
  "2 ^ 53 \<le> n \<Longrightarrow>
     round53 n = (n div 2 ^ (bitlen n - 53)) * 2 ^ (bitlen n - 53) \<or>
     round53 n = (n div 2 ^ (bitlen n - 53) + 1) * 2 ^ (bitlen n - 53)"
  by (simp add: round53_def Let_def)

lemma round53_large:
  assumes "2 ^ 53 \<le> n"
  shows "2 ^ 53 \<le> round53 n"
proof -
  define e where "e = bitlen n - 53"
  define q where "q = n div 2 ^ e"
  from assms have pos: "0 < n"
    by simp
  from bitlen_bounds [OF pos] have b: "2 ^ (bitlen n - 1) \<le> n" "n < 2 ^ bitlen n"
    by simp_all
  have "53 < bitlen n"
  proof (rule ccontr)
    assume "\<not> 53 < bitlen n"
    then have "(2::int) ^ bitlen n \<le> 2 ^ 53"
      by (intro power_increasing) simp_all
    with b(2) assms show False
      by simp
  qed
  then have l: "bitlen n - 1 = 52 + e" and e1: "1 \<le> e"
    by (simp_all add: e_def)
  have le: "(2::int) ^ 52 * 2 ^ e \<le> n"
    using b(1) unfolding l by (simp add: power_add)
  have "((2::int) ^ 52 * 2 ^ e) div 2 ^ e \<le> n div 2 ^ e"
    using le by (rule zdiv_mono1) simp
  then have q52: "2 ^ 52 \<le> q"
    by (simp add: q_def)
  have pe: "(2::int) \<le> 2 ^ e"
    using e1 power_increasing [of 1 e "2::int"] by simp
  have "(2::int) ^ 53 = 2 ^ 52 * 2"
    by simp
  also have "\<dots> \<le> q * 2 ^ e"
    using q52 pe by (intro mult_mono) simp_all
  finally have 1: "2 ^ 53 \<le> q * 2 ^ e" .
  moreover have "q * 2 ^ e \<le> (q + 1) * 2 ^ e"
    by (simp add: distrib_right)
  ultimately have 2: "2 ^ 53 \<le> (q + 1) * 2 ^ e"
    by (rule order_trans)
  from round53_choice [OF assms] 1 2 show ?thesis
    by (auto simp: e_def q_def)
qed


lemma shortest_rounds: "shortest x j = x \<or> round53 (shortest x j) = x"
  by (induction j) (auto simp: Let_def)

lemma shortest_pos: "0 < x \<Longrightarrow> 0 < shortest x j"
proof (induction j)
  case 0
  then show ?case by simp
next
  case (Suc j)
  define p :: int where "p = 10 ^ Suc j"
  define lo where "lo = (x div p) * p"
  have p: "0 < p"
    by (simp add: p_def)
  with Suc.prems have lo: "0 \<le> lo"
    by (simp add: lo_def pos_imp_zdiv_nonneg_iff)
  have z: "round53 0 = 0"
    by (simp add: round53_def)
  have "0 < lo" if "round53 lo = x"
  proof (cases "lo = 0")
    case True
    with that z Suc.prems show ?thesis
      by simp
  next
    case False
    with lo show ?thesis
      by simp
  qed
  moreover from lo p have "0 < lo + p"
    by simp
  moreover from Suc have "0 < shortest x j"
    by simp
  ultimately show ?case
    unfolding shortest.simps Let_def p_def [symmetric] lo_def [symmetric]
    by (simp split: if_splits)
qed

lemma shortest_small:
  assumes "0 < x" "x < 2 ^ 53"
  shows "shortest x j = x"
proof (induction j)
  case 0
  show ?case by simp
next
  case (Suc j)
  define p :: int where "p = 10 ^ Suc j"
  define lo where "lo = (x div p) * p"
  have p: "0 < p"
    by (simp add: p_def)
  have lo: "0 \<le> lo" "lo \<le> x" "x < lo + p"
  proof -
    from p assms(1) show "0 \<le> lo"
      by (simp add: lo_def pos_imp_zdiv_nonneg_iff)
    have "x = lo + x mod p"
      by (simp add: lo_def)
    moreover from p have "0 \<le> x mod p" "x mod p < p"
      by simp_all
    ultimately show "lo \<le> x" "x < lo + p"
      by linarith+
  qed
  have l: "round53 lo = lo"
    using lo assms(2) by (intro round53_small) simp
  have h: "round53 (lo + p) \<noteq> x"
  proof (cases "lo + p < 2 ^ 53")
    case True
    with lo show ?thesis
      by (simp add: round53_small)
  next
    case False
    then have "2 ^ 53 \<le> round53 (lo + p)"
      by (intro round53_large) simp
    with assms(2) show ?thesis
      by simp
  qed
  from l h Suc show ?case
    unfolding shortest.simps Let_def p_def [symmetric] lo_def [symmetric]
    by simp
qed

lemma toNumber_pos:
  assumes "0 < n"
  shows "toNumber n = PosInf \<or> (\<exists>m>0. toNumber n = Num m)"
proof -
  have "0 < round53 n"
  proof (cases "n < 2 ^ 53")
    case True
    with assms show ?thesis
      by (simp add: round53_small)
  next
    case False
    then have "2 ^ 53 \<le> round53 n"
      by (intro round53_large) simp
    then show ?thesis
      by simp
  qed
  with assms show ?thesis
    by (simp add: toNumber_def Let_def)
qed

lemma parseInt_digits:
  assumes "list_all isDigit z" "z \<noteq> []"
  shows "parseInt z = toNumber (digitsValue z)"
proof -
  from assms obtain c cs where z: "z = c # cs" "isDigit c"
    by (cases z) auto
  from isDigit_props [OF z(2)] have "dropWhile isWhiteSpace z = z"
    by (simp add: z(1))
  moreover from assms(1) have "takeWhile isDigit z = z"
    by (simp add: list_all_iff)
  ultimately show ?thesis
    using isDigit_props [OF z(2)] assms(2) by (simp add: parseInt_def z(1))
qed

lemma parseInt_exponent:
  assumes "isDigit d"
  shows "parseInt (d # CHR ''e'' # rest) = Num (digitVal d)"
proof -
  have "\<not> isDigit CHR ''e''"
    by (simp add: isDigit_def)
  with assms isDigit_props [OF assms] have "parseInt (d # CHR ''e'' # rest) = toNumber (digitVal d)"
    by (simp add: parseInt_def digitsValue_def)
  moreover from isDigit_props [OF assms] have "\<bar>digitVal d\<bar> \<le> 2 ^ 53"
    by simp
  ultimately show ?thesis
    by (simp add: toNumber_exact)
qed

lemma search_char: "search [c] s = None \<longleftrightarrow> c \<notin> set s"
  by (induction s) auto

lemma indexOf_char: "indexOf s [c] 0 = - 1 \<longleftrightarrow> c \<notin> set s"
  by (simp add: indexOf_def search_char [symmetric] split: option.splits)

lemma stripZeros_subset: "set (stripZeros ds) \<subseteq> set ds"
  by (auto simp: stripZeros_def dest: set_dropWhileD)


lemma digits_no_mark:
  assumes "list_all isDigit z"
  shows "indexOf z ''.'' 0 = - 1" "indexOf z ''-'' 0 = - 1"
  using assms isDigit_props(3,4) by (auto simp: indexOf_char list_all_iff)

lemma canonical_accepted:
  assumes "0 < n" "numberToString (toNumber n) = digits10 n"
  shows "\<not> amountRejected (digits10 n)"
proof -
  from assms(1) digits10_props [of n] have
    d: "digits10 n \<noteq> []" "list_all isDigit (digits10 n)" "digitsValue (digits10 n) = n"
    by simp_all
  from parseInt_digits [OF d(2,1)] d(3) have p: "parseInt (digits10 n) = toNumber n"
    by simp
  from toNumber_pos [OF assms(1)] have "\<not> isNaN (toNumber n)" "\<not> js_le (toNumber n) (Num 0)"
    by auto
  with d(1) digits_no_mark [OF d(2)] p assms(2) show ?thesis
    by (simp add: amountRejected_def)
qed

lemma small_number_string:
  assumes "0 < n" "n < 2 ^ 53"
  shows "numberToString (toNumber n) = digits10 n"
proof -
  from assms have "toNumber n = Num n"
    by (intro toNumber_exact) simp
  moreover from assms have "length (digits10 n) \<le> 21"
    by (intro digits10_length) simp_all
  ultimately show ?thesis
    using assms by (simp add: positiveToString_def shortest_small Let_def)
qed

lemma accepted_canonical:
  assumes "\<not> amountRejected raw"
  shows "\<exists>n>0. raw = digits10 n \<and> numberToString (toNumber n) = raw"
proof -
  from accepted_amount [OF assms] obtain m where m: "parseInt raw = Num m" "0 < m"
    by blast
  from assms m have r: "raw \<noteq> []" "CHR ''.'' \<notin> set raw" "raw = positiveToString m"
    by (auto simp: amountRejected_def Let_def indexOf_char split: if_splits)
  define M where "M = shortest m (length (digits10 m) - 1)"
  define ds where "ds = digits10 M"
  from m(2) have M: "0 < M"
    by (simp add: M_def shortest_pos)
  with digits10_props [of M] have
    d: "ds \<noteq> []" "list_all isDigit ds" "digitsValue ds = M"
    by (simp_all add: ds_def)
  show ?thesis
  proof (cases "length ds \<le> 21")
    case True
    with r(3) have e: "raw = digits10 M"
      by (simp add: positiveToString_def Let_def M_def ds_def)
    with parseInt_digits [OF d(2,1)] d(3) m(1) have "toNumber M = Num m"
      by (simp add: ds_def)
    with m(2) r(3) e M show ?thesis
      by auto
  next
    case False
    have big: "10 ^ 21 \<le> M"
    proof (rule ccontr)
      assume "\<not> 10 ^ 21 \<le> M"
      with M have "length (digits10 M) \<le> 21"
        by (intro digits10_length) simp_all
      with False show False
        by (simp add: ds_def)
    qed
    have large: "10 \<le> m"
    proof (cases "M = m")
      case True
      with big show ?thesis
        by simp
    next
      case False
      with shortest_rounds [of m "length (digits10 m) - 1"] have "round53 M = m"
        by (simp add: M_def)
      moreover from big have "2 ^ 53 \<le> round53 M"
        by (intro round53_large) simp
      ultimately show ?thesis
        by simp
    qed
    from False r(3) have e: "raw = exponentString ds"
      by (simp add: positiveToString_def Let_def M_def ds_def)
    show ?thesis
    proof (cases "stripZeros ds")
      case Nil
      with e r(1) show ?thesis
        by (simp add: exponentString_def)
    next
      case (Cons c cs)
      show ?thesis
      proof (cases cs)
        case Nil
        with Cons stripZeros_subset [of ds] d(2) have c: "isDigit c"
          by (auto simp: list_all_iff)
        from e Cons Nil have "raw = c # CHR ''e'' # CHR ''+'' # digits10 (int (length ds) - 1)"
          by (simp add: exponentString_def)
        with parseInt_exponent [OF c] m(1) have "m = digitVal c"
          by simp
        with isDigit_props(7) [OF c] large show ?thesis
          by simp
      next
        case (Cons f fs)
        with e \<open>stripZeros ds = c # cs\<close> r(2) show ?thesis
          by (simp add: exponentString_def)
      qed
    qed
  qed
qed

text \<open>
  Claim C7. The amount rule fails with \<open>AM01\<close> exactly when the raw amount is not the
  canonical base-10 representation of a strictly positive integer: every string equal to
  the decimal form of its own positive value passes, of any magnitude, and every string
  with a \<^verbatim>\<open>.\<close>, a \<^verbatim>\<open>-\<close>, leading zeros or trailing non-digit characters is rejected.

  As stated the claim fails for large magnitudes: the value parsed is a double, so the
  canonical string \<^verbatim>\<open>9007199254740993\<close> (\<open>2^53 + 1\<close>) is parsed as \<open>2^53\<close>, printed as
  \<^verbatim>\<open>9007199254740992\<close> and rejected (theorem \<open>amount_rule_counterexample\<close> below). The
  amended claim, proved here: an amount is accepted exactly when it is the canonical
  decimal string of a positive integer that the number printer gives back for the double
  nearest to it; hence every string that is not canonical is rejected, whatever its
  magnitude, in particular every string with a \<^verbatim>\<open>.\<close>, a \<^verbatim>\<open>-\<close>, a leading zero or a
  character that is not a digit; and every canonical string of a positive integer below
  \<open>2^53\<close> is accepted.
\<close>

theorem amount_rule:
  "(\<not> amountRejected raw \<longleftrightarrow>
      (\<exists>n>0. raw = digits10 n \<and> numberToString (toNumber n) = raw)) \<and>
   ((\<forall>n>0. raw \<noteq> digits10 n) \<longrightarrow> amountRejected raw) \<and>
   (\<forall>n. 0 < n \<and> n < 2 ^ 53 \<longrightarrow> \<not> amountRejected (digits10 n)) \<and>
   (CHR ''.'' \<in> set raw \<or> CHR ''-'' \<in> set raw \<or> (\<exists>r. raw = CHR ''0'' # r) \<or>
    \<not> list_all isDigit raw \<longrightarrow> amountRejected raw)"
proof (intro conjI)
  show "\<not> amountRejected raw \<longleftrightarrow>
      (\<exists>n>0. raw = digits10 n \<and> numberToString (toNumber n) = raw)"
    using accepted_canonical canonical_accepted by metis
  show "(\<forall>n>0. raw \<noteq> digits10 n) \<longrightarrow> amountRejected raw"
    using accepted_canonical by blast
  show "\<forall>n. 0 < n \<and> n < 2 ^ 53 \<longrightarrow> \<not> amountRejected (digits10 n)"
    using canonical_accepted small_number_string by blast
  show "CHR ''.'' \<in> set raw \<or> CHR ''-'' \<in> set raw \<or> (\<exists>r. raw = CHR ''0'' # r) \<or>
    \<not> list_all isDigit raw \<longrightarrow> amountRejected raw"
  proof (rule impI, rule ccontr)
    assume a: "CHR ''.'' \<in> set raw \<or> CHR ''-'' \<in> set raw \<or> (\<exists>r. raw = CHR ''0'' # r) \<or>
      \<not> list_all isDigit raw" and "\<not> amountRejected raw"
    from accepted_canonical [OF this(2)] obtain n where n: "0 < n" "raw = digits10 n"
      by blast
    with digits10_props [of n] have
      "list_all isDigit raw" "hd raw \<noteq> CHR ''0''"
      by simp_all
    with a isDigit_props(3,4) show False
      by (auto simp: list_all_iff)
  qed
qed

theorem amount_rule_counterexample:
  "digits10 9007199254740993 = ''9007199254740993'' \<and> amountRejected ''9007199254740993'' \<and>
   parseInt ''9007199254740993'' = Num 9007199254740992 \<and>
   numberToString (Num 9007199254740992) = ''9007199254740992''"
  by code_simp

theorem amount_rule_witness:
  "\<not> amountRejected ''500'' \<and> \<not> amountRejected ''9007199254740991'' \<and>
   amountRejected ''0100'' \<and> amountRejected ''100.0'' \<and> amountRejected ''-5'' \<and>
   amountRejected ''12x'' \<and> amountRejected ''0''"
proof -
  have d: "digits10 500 = ''500''" "digits10 9007199254740991 = ''9007199254740991''"
    by code_simp+
  have x: "\<not> list_all isDigit ''12x''"
    by code_simp
  from amount_rule [of "''500''"] have "\<not> amountRejected (digits10 500)"
    by simp
  moreover from amount_rule [of "''500''"] have "\<not> amountRejected (digits10 9007199254740991)"
    by simp
  moreover from amount_rule [of "''0100''"] have "amountRejected ''0100''"
    by simp
  moreover from amount_rule [of "''100.0''"] have "amountRejected ''100.0''"
    by simp
  moreover from amount_rule [of "''-5''"] have "amountRejected ''-5''"
    by simp
  moreover from amount_rule [of "''12x''"] x have "amountRejected ''12x''"
    by blast
  moreover from amount_rule [of "''0''"] have "amountRejected ''0''"
    by simp
  ultimately show ?thesis
    by (simp add: d)
qed

end
